theory Spec2Isabelle
  imports Complex_Main
begin

section \<open>RateLimiter (rate-limiter.js)\<close>

text \<open>
  The limiter keeps a counter and the start of the current window. \<open>Date.now()\<close> is an
  integer number of milliseconds and is passed in as \<open>now\<close>. The constructor takes the quota
  as a number; the window length is the constant 60000.
\<close>

record rate_limiter =
  requestCount :: int
  lastResetTime :: int
  maxRequestsPerMinute :: int

definition resetIntervalMs :: int where
  "resetIntervalMs = 60000"

definition new_rate_limiter :: "int \<Rightarrow> int \<Rightarrow> rate_limiter" where
  "new_rate_limiter maxPerMinute now =
     \<lparr>requestCount = 0, lastResetTime = now, maxRequestsPerMinute = maxPerMinute\<rparr>"

text \<open>
  The error thrown by \<open>execute\<close>: \<open>new Error(`Rate limit exceeded. Please wait ${n} seconds.`)\<close>,
  kept as a value that carries \<open>n = Math.ceil(waitTime / 1000)\<close>.
\<close>

datatype rate_limit_error = RateLimitExceeded int

text \<open>The first statement of \<open>execute\<close>: a window that is over is reset.\<close>

definition reset_window :: "rate_limiter \<Rightarrow> int \<Rightarrow> rate_limiter" where
  "reset_window rl now =
     (if now - lastResetTime rl \<ge> resetIntervalMs
      then rl\<lparr>requestCount := 0, lastResetTime := now\<rparr>
      else rl)"

text \<open>
  The synchronous prefix of \<open>execute\<close>: reset check, then quota check. It returns the limiter
  after the reset check and the error to throw, if any.
\<close>

definition check_rate_limit :: "rate_limiter \<Rightarrow> int \<Rightarrow> rate_limiter \<times> rate_limit_error option" where
  "check_rate_limit rl now =
     (let rl1 = reset_window rl now in
      if requestCount rl1 \<ge> maxRequestsPerMinute rl1
      then (let waitTime = resetIntervalMs - (now - lastResetTime rl1)
            in (rl1, Some (RateLimitExceeded \<lceil>real_of_int waitTime / 1000\<rceil>)))
      else (rl1, None))"

text \<open>
  The first statement of the callback handed to the concurrency limiter:
  \<open>this.requestCount++\<close>, directly followed by the call of the task.
\<close>

definition dispatch :: "rate_limiter \<Rightarrow> rate_limiter" where
  "dispatch rl = rl\<lparr>requestCount := requestCount rl + 1\<rparr>"

text \<open>
  \<open>execute\<close> for a caller that awaits each call before making the next one: the concurrency
  limiter is idle then, so the callback runs before any other call of \<open>execute\<close>. The task's
  own outcome is the value \<open>task\<close>.
\<close>

definition execute :: "rate_limiter \<Rightarrow> int \<Rightarrow> 'a \<Rightarrow> rate_limiter \<times> (rate_limit_error + 'a)" where
  "execute rl now task =
     (case check_rate_limit rl now of
        (rl1, Some e) \<Rightarrow> (rl1, Inl e)
      | (rl1, None) \<Rightarrow> (dispatch rl1, Inr task))"

text \<open>A sequence of awaited submissions, each with the clock value at its call.\<close>

fun execute_all :: "rate_limiter \<Rightarrow> (int \<times> 'a) list \<Rightarrow> rate_limiter \<times> (rate_limit_error + 'a) list" where
  "execute_all rl [] = (rl, [])"
| "execute_all rl ((now, task) # rest) =
     (case execute rl now task of
        (rl1, r) \<Rightarrow> (case execute_all rl1 rest of (rl2, rs) \<Rightarrow> (rl2, r # rs)))"

definition getStatus :: "rate_limiter \<Rightarrow> int \<times> int \<times> int" where
  "getStatus rl = (requestCount rl, maxRequestsPerMinute rl, lastResetTime rl + resetIntervalMs)"

section \<open>Concurrent callers of the rate limiter\<close>

text \<open>
  \<open>execute\<close> is an async function on a single-threaded event loop. Its reset check and quota
  check run synchronously when it is called; the task is then handed to the concurrency
  limiter \<open>pLimit(5)\<close>, which runs at most five callbacks at a time and queues the others in
  submission order. The callback increments \<open>requestCount\<close> and calls the task. The event loop
  is modelled by three kinds of atomic step: a caller enters \<open>execute\<close>, the concurrency limiter
  starts the oldest queued callback, a task in flight settles. \<open>dispatched\<close> records the clock
  value of every start, for stating properties; the code does not keep it.
\<close>

record limiter_system =
  limiter :: rate_limiter
  queued :: nat
  activeCount :: nat
  dispatched :: "int list"
  rejected :: "rate_limit_error list"

datatype event = Call int | Start int | Finish

definition concurrency :: nat where
  "concurrency = 5"

definition new_system :: "int \<Rightarrow> int \<Rightarrow> limiter_system" where
  "new_system maxPerMinute now =
     \<lparr>limiter = new_rate_limiter maxPerMinute now, queued = 0, activeCount = 0,
      dispatched = [], rejected = []\<rparr>"

text \<open>One atomic step; \<open>None\<close> when the event cannot happen in the state.\<close>

fun step :: "limiter_system \<Rightarrow> event \<Rightarrow> limiter_system option" where
  "step s (Call now) =
     (case check_rate_limit (limiter s) now of
        (rl1, Some e) \<Rightarrow> Some (s\<lparr>limiter := rl1, rejected := rejected s @ [e]\<rparr>)
      | (rl1, None) \<Rightarrow> Some (s\<lparr>limiter := rl1, queued := queued s + 1\<rparr>))"
| "step s (Start now) =
     (if 0 < queued s \<and> activeCount s < concurrency
      then Some (s\<lparr>limiter := dispatch (limiter s), queued := queued s - 1,
                   activeCount := activeCount s + 1, dispatched := dispatched s @ [now]\<rparr>)
      else None)"
| "step s Finish =
     (if 0 < activeCount s then Some (s\<lparr>activeCount := activeCount s - 1\<rparr>) else None)"

fun run :: "limiter_system \<Rightarrow> event list \<Rightarrow> limiter_system option" where
  "run s [] = Some s"
| "run s (e # es) = (case step s e of None \<Rightarrow> None | Some s1 \<Rightarrow> run s1 es)"

text \<open>The tasks started inside the window that begins at \<open>start\<close>.\<close>

definition dispatched_in_window :: "limiter_system \<Rightarrow> int \<Rightarrow> nat" where
  "dispatched_in_window s start =
     length (filter (\<lambda>t. start \<le> t \<and> t < start + resetIntervalMs) (dispatched s))"

text \<open>
  Eleven callers against a quota of ten, all within four seconds of the window start. The first
  five are started at once and stay in flight; the next six pass the quota check while the
  counter reads five, and wait in the queue; each is started when an earlier task settles.
\<close>

definition eleven_callers :: "event list" where
  "eleven_callers =
     [Call 1, Start 1, Call 2, Start 2, Call 3, Start 3, Call 4, Start 4, Call 5, Start 5,
      Call 6, Call 7, Call 8, Call 9, Call 10, Call 11,
      Finish, Start 3001, Finish, Start 3002, Finish, Start 3003,
      Finish, Start 3004, Finish, Start 3005, Finish, Start 3006]"

section \<open>Strings and the platform functions the engine calls\<close>

text \<open>
  A JavaScript string is modelled as the list of the octets of its UTF-8 encoding, so that an
  ASCII character is one element. The markers tested by the code are ASCII, and lengths, case
  folding and character classes are those of ASCII text: case folding maps \<open>A\<close>..\<open>Z\<close> to
  \<open>a\<close>..\<open>z\<close>, white space is the ASCII white space of the regular-expression class \<open>\s\<close>, a
  word character is one of the class \<open>\w\<close>. Octets above 127 come out of percent escapes and
  of base64; the decoders of the platform treat them as modelled below.
\<close>

fun startsWith :: "string \<Rightarrow> string \<Rightarrow> bool" where
  "startsWith s [] = True"
| "startsWith [] (p # ps) = False"
| "startsWith (c # s) (p # ps) = (c = p \<and> startsWith s ps)"

fun str_includes :: "string \<Rightarrow> string \<Rightarrow> bool" where
  "str_includes [] sub = (sub = [])"
| "str_includes (c # s) sub = (startsWith (c # s) sub \<or> str_includes s sub)"

definition to_lower_char :: "char \<Rightarrow> char" where
  "to_lower_char c =
     (let n = (of_char c :: nat) in if 65 \<le> n \<and> n \<le> 90 then char_of (n + 32) else c)"

definition toLowerCase :: "string \<Rightarrow> string" where
  "toLowerCase s = map to_lower_char s"

definition is_space :: "char \<Rightarrow> bool" where
  "is_space c = (let n = (of_char c :: nat) in (9 \<le> n \<and> n \<le> 13) \<or> n = 32)"

definition is_digit :: "char \<Rightarrow> bool" where
  "is_digit c = (let n = (of_char c :: nat) in 48 \<le> n \<and> n \<le> 57)"

definition is_word_char :: "char \<Rightarrow> bool" where
  "is_word_char c =
     (let n = (of_char c :: nat) in
        (48 \<le> n \<and> n \<le> 57) \<or> (65 \<le> n \<and> n \<le> 90) \<or> (97 \<le> n \<and> n \<le> 122) \<or> n = 95)"

definition trim :: "string \<Rightarrow> string" where
  "trim s = rev (dropWhile is_space (rev (dropWhile is_space s)))"

text \<open>\<open>s.split(/\s+/)\<close>: the fields between maximal runs of white space, empty fields at
  the two ends included.\<close>

fun split_ws_from :: "string \<Rightarrow> string \<Rightarrow> string list" where
  "split_ws_from cur [] = [cur]"
| "split_ws_from cur (c # cs) =
     (if is_space c
      then (case cs of
              [] \<Rightarrow> [cur, []]
            | d # _ \<Rightarrow> if is_space d then split_ws_from cur cs else cur # split_ws_from [] cs)
      else split_ws_from (cur @ [c]) cs)"

definition split_ws :: "string \<Rightarrow> string list" where
  "split_ws s = split_ws_from [] s"

text \<open>\<open>s.split(sep)\<close> for a one-character separator.\<close>

fun split_char_from :: "char \<Rightarrow> string \<Rightarrow> string \<Rightarrow> string list" where
  "split_char_from sep cur [] = [cur]"
| "split_char_from sep cur (c # cs) =
     (if c = sep then cur # split_char_from sep [] cs else split_char_from sep (cur @ [c]) cs)"

definition split_char :: "char \<Rightarrow> string \<Rightarrow> string list" where
  "split_char sep s = split_char_from sep [] s"

fun join :: "string \<Rightarrow> string list \<Rightarrow> string" where
  "join sep [] = []"
| "join sep [w] = w"
| "join sep (w # v # ws) = w @ sep @ join sep (v # ws)"

text \<open>\<open>x || ''\<close> for an attribute that may be undefined, and the truthiness of a string.\<close>

definition or_empty :: "string option \<Rightarrow> string" where
  "or_empty a = (case a of None \<Rightarrow> [] | Some s \<Rightarrow> s)"

definition truthy :: "string option \<Rightarrow> bool" where
  "truthy a = (case a of None \<Rightarrow> False | Some s \<Rightarrow> s \<noteq> [])"

subsection \<open>Percent decoding, query strings, base64\<close>

definition is_hex :: "char \<Rightarrow> bool" where
  "is_hex c =
     (let n = (of_char c :: nat) in
        (48 \<le> n \<and> n \<le> 57) \<or> (65 \<le> n \<and> n \<le> 70) \<or> (97 \<le> n \<and> n \<le> 102))"

definition hex_val :: "char \<Rightarrow> nat" where
  "hex_val c =
     (let n = (of_char c :: nat) in
        if n \<le> 57 then n - 48 else if n \<le> 70 then n - 55 else n - 87)"

definition hex_byte :: "char \<Rightarrow> char \<Rightarrow> char" where
  "hex_byte h l = char_of (16 * hex_val h + hex_val l)"

text \<open>The percent decoding of \<open>URLSearchParams\<close>: an escape that is not two hex digits is kept
  as it is.\<close>

fun percent_decode :: "string \<Rightarrow> string" where
  "percent_decode (c # h # l # rest) =
     (if c = CHR ''%'' \<and> is_hex h \<and> is_hex l
      then hex_byte h l # percent_decode rest
      else c # percent_decode (h # l # rest))"
| "percent_decode cs = cs"

text \<open>
  Well-formed UTF-8, by the table of the Unicode standard. \<open>decodeURIComponent\<close> throws a
  URIError when the decoded octets are not well-formed.
\<close>

definition in_range :: "char \<Rightarrow> nat \<Rightarrow> nat \<Rightarrow> bool" where
  "in_range c lo hi = (lo \<le> (of_char c :: nat) \<and> (of_char c :: nat) \<le> hi)"

fun utf8_valid :: "string \<Rightarrow> bool" where
  "utf8_valid [] = True"
| "utf8_valid (a # rest) =
     (if in_range a 0 127 then utf8_valid rest
      else (case rest of
         [] \<Rightarrow> False
       | b # rest2 \<Rightarrow>
           if in_range a 194 223 then in_range b 128 191 \<and> utf8_valid rest2
           else (case rest2 of
              [] \<Rightarrow> False
            | c # rest3 \<Rightarrow>
                if in_range a 224 224 then in_range b 160 191 \<and> in_range c 128 191 \<and> utf8_valid rest3
                else if in_range a 225 236 \<or> in_range a 238 239
                  then in_range b 128 191 \<and> in_range c 128 191 \<and> utf8_valid rest3
                else if in_range a 237 237 then in_range b 128 159 \<and> in_range c 128 191 \<and> utf8_valid rest3
                else (case rest3 of
                   [] \<Rightarrow> False
                 | d # rest4 \<Rightarrow>
                     if in_range a 240 240
                       then in_range b 144 191 \<and> in_range c 128 191 \<and> in_range d 128 191 \<and> utf8_valid rest4
                     else if in_range a 241 243
                       then in_range b 128 191 \<and> in_range c 128 191 \<and> in_range d 128 191 \<and> utf8_valid rest4
                     else if in_range a 244 244
                       then in_range b 128 143 \<and> in_range c 128 191 \<and> in_range d 128 191 \<and> utf8_valid rest4
                     else False))))"

text \<open>The escapes of \<open>decodeURIComponent\<close>: a \<open>%\<close> that is not followed by two hex digits
  is an error.\<close>

fun unescape_strict :: "string \<Rightarrow> string option" where
  "unescape_strict [] = Some []"
| "unescape_strict (c # cs) =
     (if c = CHR ''%''
      then (case cs of
              h # l # rest \<Rightarrow>
                if is_hex h \<and> is_hex l
                then map_option ((#) (hex_byte h l)) (unescape_strict rest)
                else None
            | _ \<Rightarrow> None)
      else map_option ((#) c) (unescape_strict cs))"

text \<open>\<open>decodeURIComponent(s)\<close>; \<open>None\<close> is the URIError it throws.\<close>

definition decodeURIComponent :: "string \<Rightarrow> string option" where
  "decodeURIComponent s =
     (case unescape_strict s of
        None \<Rightarrow> None
      | Some bytes \<Rightarrow> if utf8_valid bytes then Some bytes else None)"

text \<open>
  The UTF-8 decoder of the platform, which \<open>URLSearchParams\<close> and \<open>Buffer.toString('utf-8')\<close>
  apply to octets: a well-formed sequence is kept; at an octet that cannot start or continue a
  sequence, the octets of the sequence read so far are replaced by U+FFFD (\<open>EF BF BD\<close>) and
  decoding goes on at that octet, or after it when it was the first one; an unfinished sequence
  at the end gives one U+FFFD. The state is the number of octets still needed, the range
  allowed for the next one, and the octets of the sequence read so far.
\<close>

definition replacement :: string where
  "replacement = [CHR 0xEF, CHR 0xBF, CHR 0xBD]"

fun utf8_decode_from :: "nat \<Rightarrow> nat \<Rightarrow> nat \<Rightarrow> string \<Rightarrow> string \<Rightarrow> string" where
  "utf8_decode_from needed lo hi seen [] = (if needed = 0 then [] else replacement)"
| "utf8_decode_from 0 lo hi seen (b # bs) =
     (if in_range b 0 127 then b # utf8_decode_from 0 128 191 [] bs
      else if in_range b 194 223 then utf8_decode_from 1 128 191 [b] bs
      else if in_range b 224 239
        then utf8_decode_from 2 (if in_range b 224 224 then 160 else 128)
               (if in_range b 237 237 then 159 else 191) [b] bs
      else if in_range b 240 244
        then utf8_decode_from 3 (if in_range b 240 240 then 144 else 128)
               (if in_range b 244 244 then 143 else 191) [b] bs
      else replacement @ utf8_decode_from 0 128 191 [] bs)"
| "utf8_decode_from (Suc k) lo hi seen (b # bs) =
     (if in_range b lo hi
      then (if k = 0 then seen @ [b] @ utf8_decode_from 0 128 191 [] bs
            else utf8_decode_from k 128 191 (seen @ [b]) bs)
      else replacement @ utf8_decode_from 0 128 191 [] (b # bs))"

definition utf8_decode :: "string \<Rightarrow> string" where
  "utf8_decode bytes = utf8_decode_from 0 128 191 [] bytes"

text \<open>
  \<open>new URLSearchParams(s)\<close>: a leading \<open>?\<close> is dropped, the string is cut at \<open>&\<close>, empty
  pieces are skipped, each piece is cut at its first \<open>=\<close>, \<open>+\<close> becomes a space and both halves
  are percent-decoded and then decoded as UTF-8. \<open>get\<close> returns the value of the first pair
  with the name.
\<close>

definition plus_to_space :: "string \<Rightarrow> string" where
  "plus_to_space s = map (\<lambda>c. if c = CHR ''+'' then CHR '' '' else c) s"

definition form_decode :: "string \<Rightarrow> string" where
  "form_decode s = utf8_decode (percent_decode (plus_to_space s))"

definition parse_pair :: "string \<Rightarrow> string \<times> string" where
  "parse_pair p =
     (form_decode (takeWhile (\<lambda>c. c \<noteq> CHR ''='') p),
      form_decode (drop 1 (dropWhile (\<lambda>c. c \<noteq> CHR ''='') p)))"

definition URLSearchParams :: "string \<Rightarrow> (string \<times> string) list" where
  "URLSearchParams s =
     map parse_pair
       (filter (\<lambda>p. p \<noteq> []) (split_char (CHR ''&'') (if startsWith s ''?'' then drop 1 s else s)))"

definition params_get :: "(string \<times> string) list \<Rightarrow> string \<Rightarrow> string option" where
  "params_get ps name = map_of ps name"

text \<open>
  \<open>Buffer.from(s, 'base64').toString('utf-8')\<close>. Node's decoder accepts the standard and the
  URL-safe alphabet, skips every other character, and stops at the first \<open>=\<close>; it never
  throws. The octets are then decoded as UTF-8.
\<close>

definition b64_val :: "char \<Rightarrow> nat option" where
  "b64_val c =
     (let n = (of_char c :: nat) in
        if 65 \<le> n \<and> n \<le> 90 then Some (n - 65)
        else if 97 \<le> n \<and> n \<le> 122 then Some (n - 71)
        else if 48 \<le> n \<and> n \<le> 57 then Some (n + 4)
        else if c = CHR ''+'' \<or> c = CHR ''-'' then Some 62
        else if c = CHR ''/'' \<or> c = CHR ''_'' then Some 63
        else None)"

fun b64_bytes :: "nat list \<Rightarrow> string" where
  "b64_bytes (a # b # c # d # rest) =
     char_of (a * 4 + b div 16) # char_of ((b mod 16) * 16 + c div 4) # char_of ((c mod 4) * 64 + d)
       # b64_bytes rest"
| "b64_bytes [a, b, c] = [char_of (a * 4 + b div 16), char_of ((b mod 16) * 16 + c div 4)]"
| "b64_bytes [a, b] = [char_of (a * 4 + b div 16)]"
| "b64_bytes _ = []"

definition base64_decode :: "string \<Rightarrow> string" where
  "base64_decode s =
     utf8_decode (b64_bytes (List.map_filter b64_val (takeWhile (\<lambda>c. c \<noteq> CHR ''='') s)))"

section \<open>URL validity and normalization (search-engine.js)\<close>

definition isValidSearchUrl :: "string \<Rightarrow> bool" where
  "isValidSearchUrl url =
     (startsWith url ''/url?'' \<or>
      startsWith url ''http://'' \<or>
      startsWith url ''https://'' \<or>
      startsWith url ''//'' \<or>
      startsWith url ''/search?'' \<or>
      startsWith url ''/'' \<or>
      str_includes url ''google.com'' \<or>
      length url > 10)"

text \<open>\<open>urlParams.get('q') || urlParams.get('url')\<close>, and nothing thrown by \<open>URLSearchParams\<close>
  on a string.\<close>

definition cleanGoogleUrl :: "string \<Rightarrow> string" where
  "cleanGoogleUrl url =
     (let redirect =
        (if startsWith url ''/url?''
         then (let urlParams = URLSearchParams (drop 5 url);
                   actualUrl = (if truthy (params_get urlParams ''q'')
                                then params_get urlParams ''q''
                                else params_get urlParams ''url'')
               in if truthy actualUrl then actualUrl else None)
         else None)
      in case redirect of
           Some actualUrl \<Rightarrow> actualUrl
         | None \<Rightarrow> if startsWith url ''//'' then ''https:'' @ url else url)"

definition cleanBraveUrl :: "string \<Rightarrow> string" where
  "cleanBraveUrl url =
     (if startsWith url ''//'' then ''https:'' @ url
      else if startsWith url ''http://'' \<or> startsWith url ''https://'' then url
      else url)"

text \<open>
  \<open>url.match(/[?&]u=a1([^&]+)/)\<close>: the leftmost \<open>?\<close> or \<open>&\<close> that is followed by \<open>u=a1\<close> and
  at least one character other than \<open>&\<close>; the group is the longest run of such characters.
\<close>

fun match_u_param :: "string \<Rightarrow> string option" where
  "match_u_param [] = None"
| "match_u_param (c # cs) =
     (if (c = CHR ''?'' \<or> c = CHR ''&'') \<and> startsWith cs ''u=a1''
         \<and> takeWhile (\<lambda>d. d \<noteq> CHR ''&'') (drop 4 cs) \<noteq> []
      then Some (takeWhile (\<lambda>d. d \<noteq> CHR ''&'') (drop 4 cs))
      else match_u_param cs)"

text \<open>
  The decoding attempt of \<open>cleanBingUrl\<close>: \<open>Some\<close> of the target when every step succeeds and
  the decoded text begins with \<open>http://\<close> or \<open>https://\<close>; \<open>None\<close> in every other case (no match,
  a URIError caught by the outer \<open>try\<close>, or a decoded text that is no http address), where the
  code goes on with the statements after the \<open>if\<close>.
\<close>

definition bing_redirect_target :: "string \<Rightarrow> string option" where
  "bing_redirect_target url =
     (case match_u_param url of
        None \<Rightarrow> None
      | Some m \<Rightarrow>
          (case decodeURIComponent m of
             None \<Rightarrow> None
           | Some encoded \<Rightarrow>
               (let padding = 4 - (length encoded mod 4);
                    paddedEncoded = (if padding \<noteq> 0 \<and> padding \<noteq> 4
                                     then encoded @ replicate padding (CHR ''='')
                                     else encoded);
                    decoded = base64_decode paddedEncoded
                in if startsWith decoded ''http://'' \<or> startsWith decoded ''https://''
                   then Some decoded else None)))"

definition cleanBingUrl :: "string \<Rightarrow> string" where
  "cleanBingUrl url =
     (let redirect =
        (if str_includes url ''bing.com/ck/a?'' \<or> str_includes url ''bing.com/ck/a&''
         then bing_redirect_target url
         else None)
      in case redirect of
           Some decoded \<Rightarrow> decoded
         | None \<Rightarrow>
             if startsWith url ''//'' then ''https:'' @ url
             else if startsWith url ''http://'' \<or> startsWith url ''https://'' then url
             else url)"

text \<open>\<open>url.substring(url.indexOf('?') + 1)\<close>: the whole string when there is no \<open>?\<close>.\<close>

definition after_first_question_mark :: "string \<Rightarrow> string" where
  "after_first_question_mark url =
     (if CHR ''?'' \<in> set url then drop 1 (dropWhile (\<lambda>c. c \<noteq> CHR ''?'') url) else url)"

definition cleanDuckDuckGoUrl :: "string \<Rightarrow> string" where
  "cleanDuckDuckGoUrl url =
     (let redirect =
        (if startsWith url ''//duckduckgo.com/l/''
         then (let urlParams = URLSearchParams (after_first_question_mark url);
                   actualUrl = params_get urlParams ''uddg''
               in if truthy actualUrl then decodeURIComponent (or_empty actualUrl) else None)
         else None)
      in case redirect of
           Some decodedUrl \<Rightarrow> decodedUrl
         | None \<Rightarrow> if startsWith url ''//'' then ''https:'' @ url else url)"

text \<open>
  What the specification asks of a result's address: it begins with a scheme, and it is not one
  of the engines' redirect forms (\<open>/url?\<close> of Google, \<open>bing.com/ck/a\<close> of Bing,
  \<open>duckduckgo.com/l/\<close> of DuckDuckGo).
\<close>

definition scheme_qualified :: "string \<Rightarrow> bool" where
  "scheme_qualified u = (startsWith u ''http://'' \<or> startsWith u ''https://'')"

definition redirect_wrapper :: "string \<Rightarrow> bool" where
  "redirect_wrapper u =
     (startsWith u ''/url?'' \<or> str_includes u ''bing.com/ck/a?'' \<or> str_includes u ''bing.com/ck/a&''
      \<or> str_includes u ''//duckduckgo.com/l/'')"

section \<open>Search results and the engine parsers (search-engine.js)\<close>

datatype fetch_status = Success | Error | Timeout

record search_result =
  title :: string
  url :: string
  description :: string
  fullContent :: string
  contentPreview :: string
  wordCount :: int
  timestamp :: string
  fetchStatus :: fetch_status
  error :: "string option"

text \<open>
  The parsers read the markup through cheerio only. An element is modelled by what they ask of
  it: its text, its \<open>href\<close> attribute (absent or a string), the elements \<open>find(selector)\<close>
  yields below it, in document order, and the selection \<open>closest(selector)\<close> yields. A loaded
  document \<open>$\<close> is the function from a selector to the elements it matches. A selection is a
  list of elements: \<open>first()\<close> keeps at most one, \<open>text()\<close> concatenates the texts,
  \<open>attr\<close> reads the first element.
\<close>

datatype elem =
  Elem (el_text: string) (el_href: "string option")
       (el_find: "string \<Rightarrow> elem list") (el_closest: "string \<Rightarrow> elem list")

type_synonym document = "string \<Rightarrow> elem list"

definition first :: "elem list \<Rightarrow> elem list" where
  "first sel = take 1 sel"

definition sel_text :: "elem list \<Rightarrow> string" where
  "sel_text sel = concat (map el_text sel)"

definition sel_href :: "elem list \<Rightarrow> string option" where
  "sel_href sel = (case sel of [] \<Rightarrow> None | e # _ \<Rightarrow> el_href e)"

text \<open>
  A loop whose body starts with an exit test: \<open>elements.each\<close> with a callback that returns
  \<open>false\<close> as its first statement, and \<open>for (... of ...)\<close> with a leading \<open>break\<close>.
\<close>

fun loop_until :: "('s \<Rightarrow> bool) \<Rightarrow> ('a \<Rightarrow> 's \<Rightarrow> 's) \<Rightarrow> 'a list \<Rightarrow> 's \<Rightarrow> 's" where
  "loop_until stop body [] s = s"
| "loop_until stop body (x # xs) s = (if stop s then s else loop_until stop body xs (body x s))"

text \<open>The first selector of a list that finds something below the element, with the first
  element it finds: the loops that \<open>break\<close> at the first hit.\<close>

fun first_found :: "elem \<Rightarrow> string list \<Rightarrow> elem option" where
  "first_found element [] = None"
| "first_found element (selector # rest) =
     (case first (el_find element selector) of
        [] \<Rightarrow> first_found element rest
      | e # _ \<Rightarrow> Some e)"

definition no_description :: string where
  "no_description = ''No description available''"

text \<open>The state of a parse: \<open>results\<close> and \<open>foundResults\<close>.\<close>

type_synonym parse_state = "search_result list \<times> bool"

definition full :: "int \<Rightarrow> parse_state \<Rightarrow> bool" where
  "full maxResults st = (int (length (fst st)) \<ge> maxResults)"

subsection \<open>parseSearchResults\<close>

definition google_title_url :: "elem \<Rightarrow> string \<times> string" where
  "google_title_url element =
     (case first_found element [''h3'', ''.LC20lb'', ''.DKV0Md'', ''a[data-ved]'', ''.r'', ''.s''] of
        None \<Rightarrow> ([], [])
      | Some t \<Rightarrow>
          (trim (el_text t),
           (case el_closest t ''a'' of
              link # _ \<Rightarrow> or_empty (el_href link)
            | [] \<Rightarrow> (case first (el_find element ''a[href]'') of
                        anyLink # _ \<Rightarrow> or_empty (el_href anyLink)
                      | [] \<Rightarrow> []))))"

definition google_snippet :: "elem \<Rightarrow> string" where
  "google_snippet element =
     (case first_found element
        [''.VwiC3b'', ''.st'', ''.aCOpRe'', ''.IsZvec'', ''.s3v9rd'', ''.MUxGbd'', ''.aCOpRe'',
         ''.snippet-content''] of
        None \<Rightarrow> []
      | Some s \<Rightarrow> trim (el_text s))"

definition google_card :: "string \<Rightarrow> elem \<Rightarrow> parse_state \<Rightarrow> parse_state" where
  "google_card ts element st =
     (case google_title_url element of
        (t, u) \<Rightarrow>
          (let snippet = google_snippet element in
           if t \<noteq> [] \<and> u \<noteq> [] \<and> isValidSearchUrl u
           then (fst st @
                   [\<lparr>title = t, url = cleanGoogleUrl u,
                     description = (if snippet \<noteq> [] then snippet else no_description),
                     fullContent = [], contentPreview = [], wordCount = 0, timestamp = ts,
                     fetchStatus = Success, error = None\<rparr>], True)
           else st))"

definition google_h3 :: "string \<Rightarrow> elem \<Rightarrow> parse_state \<Rightarrow> parse_state" where
  "google_h3 ts h3 st =
     (let t = trim (el_text h3); link = el_closest h3 ''a'' in
      if link \<noteq> [] \<and> t \<noteq> []
      then (let u = or_empty (sel_href link) in
            if isValidSearchUrl u
            then (fst st @
                    [\<lparr>title = t, url = cleanGoogleUrl u, description = no_description,
                      fullContent = [], contentPreview = [], wordCount = 0, timestamp = ts,
                      fetchStatus = Success, error = None\<rparr>], snd st)
            else st)
      else st)"

definition parseSearchResults :: "document \<Rightarrow> int \<Rightarrow> string \<Rightarrow> search_result list" where
  "parseSearchResults doc maxResults ts =
     (let st = loop_until snd
                 (\<lambda>selector. loop_until (full maxResults) (google_card ts) (doc selector))
                 [''div.g'', ''div[data-sokoban-container]'', ''.tF2Cxc'', ''.rc'', ''[data-ved]'',
                  ''div[jscontroller]'']
                 ([], False)
      in if fst st = []
         then fst (loop_until (full maxResults) (google_h3 ts) (doc ''h3'') st)
         else fst st)"

subsection \<open>parseBraveResults\<close>

fun brave_title_url :: "elem \<Rightarrow> string list \<Rightarrow> string \<times> string \<Rightarrow> string \<times> string" where
  "brave_title_url element [] tu = tu"
| "brave_title_url element (selector # rest) tu =
     (case first (el_find element selector) of
        [] \<Rightarrow> brave_title_url element rest tu
      | e # _ \<Rightarrow>
          (let t = trim (el_text e); u = or_empty (el_href e) in
           if t \<noteq> [] \<and> u \<noteq> [] \<and> startsWith u ''http''
           then (t, u)
           else brave_title_url element rest (t, u)))"

text \<open>The title taken from the card's text when no selector gave one: the first line that is
  not blank, trimmed.\<close>

definition first_text_line :: "elem \<Rightarrow> string" where
  "first_text_line element =
     (case filter (\<lambda>line. trim line \<noteq> []) (split_char (CHR 0x0A) (trim (el_text element))) of
        [] \<Rightarrow> []
      | line # _ \<Rightarrow> trim line)"

definition brave_snippet :: "elem \<Rightarrow> string" where
  "brave_snippet element =
     (case first_found element [''.snippet-content'', ''.snippet'', ''.description'', ''p''] of
        None \<Rightarrow> []
      | Some s \<Rightarrow> trim (el_text s))"

definition brave_card :: "string \<Rightarrow> elem \<Rightarrow> parse_state \<Rightarrow> parse_state" where
  "brave_card ts element st =
     (case brave_title_url element
             [''.title a'', ''h2 a'', ''.result-title a'', ''a[href*=\"://\"]'', ''.snippet-title a'']
             ([], []) of
        (t0, u) \<Rightarrow>
          (let t = (if t0 = [] then first_text_line element else t0);
               snippet = brave_snippet element in
           if t \<noteq> [] \<and> u \<noteq> [] \<and> isValidSearchUrl u
           then (fst st @
                   [\<lparr>title = t, url = cleanBraveUrl u,
                     description = (if snippet \<noteq> [] then snippet else no_description),
                     fullContent = [], contentPreview = [], wordCount = 0, timestamp = ts,
                     fetchStatus = Success, error = None\<rparr>], True)
           else st))"

definition parseBraveResults :: "document \<Rightarrow> int \<Rightarrow> string \<Rightarrow> search_result list" where
  "parseBraveResults doc maxResults ts =
     fst (loop_until (\<lambda>st. snd st \<and> full maxResults st)
            (\<lambda>selector. loop_until (full maxResults) (brave_card ts) (doc selector))
            [''[data-type=\"web\"]'', ''.result'', ''.fdb'']
            ([], False))"

subsection \<open>parseBingResults\<close>

text \<open>\<open>candidateSnippet.match(/^\d+\s*(min|sec|hour|day|week|month|year)/i)\<close>.\<close>

definition looks_like_metadata :: "string \<Rightarrow> bool" where
  "looks_like_metadata s =
     (takeWhile is_digit s \<noteq> [] \<and>
      list_ex (startsWith (toLowerCase (dropWhile is_space (dropWhile is_digit s))))
        [''min'', ''sec'', ''hour'', ''day'', ''week'', ''month'', ''year''])"

fun bing_snippet :: "elem \<Rightarrow> string list \<Rightarrow> string" where
  "bing_snippet element [] = []"
| "bing_snippet element (selector # rest) =
     (case first (el_find element selector) of
        [] \<Rightarrow> bing_snippet element rest
      | e # _ \<Rightarrow>
          (let candidateSnippet = trim (el_text e) in
           if length candidateSnippet > 20 \<and> \<not> looks_like_metadata candidateSnippet
           then candidateSnippet
           else bing_snippet element rest))"

definition bing_title_url :: "elem \<Rightarrow> string \<times> string" where
  "bing_title_url element =
     (case first_found element [''h2 a'', ''.b_title a'', ''a[data-seid]''] of
        None \<Rightarrow> ([], [])
      | Some t \<Rightarrow> (trim (el_text t), or_empty (el_href t)))"

definition bing_card :: "string \<Rightarrow> elem \<Rightarrow> parse_state \<Rightarrow> parse_state" where
  "bing_card ts element st =
     (case bing_title_url element of
        (t, u) \<Rightarrow>
          (let snippet = bing_snippet element
                 [''.b_caption p'', ''.b_snippet'', ''.b_descript'', ''.b_caption'',
                  ''.b_caption > span'', ''.b_excerpt'', ''p'', ''.b_algo_content p'',
                  ''.b_algo_content'', ''.b_context''] in
           if t \<noteq> [] \<and> u \<noteq> [] \<and> isValidSearchUrl u
           then (fst st @
                   [\<lparr>title = t, url = cleanBingUrl u,
                     description = (if snippet \<noteq> [] then snippet else no_description),
                     fullContent = [], contentPreview = [], wordCount = 0, timestamp = ts,
                     fetchStatus = Success, error = None\<rparr>], True)
           else st))"

definition parseBingResults :: "document \<Rightarrow> int \<Rightarrow> string \<Rightarrow> search_result list" where
  "parseBingResults doc maxResults ts =
     fst (loop_until (\<lambda>st. snd st \<and> full maxResults st)
            (\<lambda>selector. loop_until (full maxResults) (bing_card ts) (doc selector))
            [''.b_algo'', ''.b_result'', ''.b_card'']
            ([], False))"

subsection \<open>parseDuckDuckGoResults\<close>

definition duckduckgo_card :: "string \<Rightarrow> elem \<Rightarrow> parse_state \<Rightarrow> parse_state" where
  "duckduckgo_card ts element st =
     (let titleElement = el_find element ''.result__title a'';
          t = trim (sel_text titleElement);
          u = sel_href titleElement;
          snippet = trim (sel_text (el_find element ''.result__snippet''))
      in if t \<noteq> [] \<and> truthy u
         then (fst st @
                 [\<lparr>title = t, url = cleanDuckDuckGoUrl (or_empty u),
                   description = (if snippet \<noteq> [] then snippet else no_description),
                   fullContent = [], contentPreview = [], wordCount = 0, timestamp = ts,
                   fetchStatus = Success, error = None\<rparr>], snd st)
         else st)"

definition parseDuckDuckGoResults :: "document \<Rightarrow> int \<Rightarrow> string \<Rightarrow> search_result list" where
  "parseDuckDuckGoResults doc maxResults ts =
     fst (loop_until (full maxResults) (duckduckgo_card ts) (doc ''.result'') ([], False))"

subsection \<open>What the address of a result is derived from\<close>

text \<open>A raw \<open>href\<close> that names a web address: absolute with \<open>http\<close> or \<open>https\<close>, or
  protocol-relative.\<close>

definition web_href :: "string \<Rightarrow> bool" where
  "web_href h = (startsWith h ''http://'' \<or> startsWith h ''https://'' \<or> startsWith h ''//'')"

text \<open>
  The pairs of a title and a raw \<open>href\<close> that a parser reads from the cards of a document,
  before it tests and normalizes them: for Google from the elements of the six card selectors
  and, for the fallback, from the headings \<open>h3\<close> that lie inside a link; for Brave and Bing
  from the elements of their three card selectors; for DuckDuckGo from the elements
  \<open>.result\<close>.
\<close>

definition google_links :: "document \<Rightarrow> (string \<times> string) list" where
  "google_links doc =
     concat (map (\<lambda>selector. map google_title_url (doc selector))
       [''div.g'', ''div[data-sokoban-container]'', ''.tF2Cxc'', ''.rc'', ''[data-ved]'',
        ''div[jscontroller]''])
     @ map (\<lambda>h3. (trim (el_text h3), or_empty (sel_href (el_closest h3 ''a''))))
         (filter (\<lambda>h3. el_closest h3 ''a'' \<noteq> []) (doc ''h3''))"

definition brave_links :: "document \<Rightarrow> (string \<times> string) list" where
  "brave_links doc =
     concat (map (\<lambda>selector.
         map (\<lambda>element.
               (case brave_title_url element
                       [''.title a'', ''h2 a'', ''.result-title a'', ''a[href*=\"://\"]'',
                        ''.snippet-title a'']
                       ([], []) of
                  (t0, u) \<Rightarrow> (if t0 = [] then first_text_line element else t0, u)))
             (doc selector))
       [''[data-type=\"web\"]'', ''.result'', ''.fdb''])"

definition bing_links :: "document \<Rightarrow> (string \<times> string) list" where
  "bing_links doc =
     concat (map (\<lambda>selector. map bing_title_url (doc selector))
       [''.b_algo'', ''.b_result'', ''.b_card''])"

definition duckduckgo_links :: "document \<Rightarrow> (string \<times> string) list" where
  "duckduckgo_links doc =
     map (\<lambda>element. (trim (sel_text (el_find element ''.result__title a'')),
                     or_empty (sel_href (el_find element ''.result__title a''))))
       (doc ''.result'')"

subsection \<open>Example documents\<close>

definition leaf :: "string \<Rightarrow> string option \<Rightarrow> elem" where
  "leaf t h = Elem t h (\<lambda>_. []) (\<lambda>_. [])"

text \<open>A Google page with one card, whose heading sits inside a link to a further search.\<close>

definition google_page :: document where
  "google_page = (\<lambda>selector.
     if selector = ''div.g''
     then [Elem ''Images for isabelle'' None
             (\<lambda>s. if s = ''h3''
                  then [Elem ''Images for isabelle'' None (\<lambda>_. [])
                          (\<lambda>c. if c = ''a''
                               then [leaf ''Images for isabelle'' (Some ''/search?q=isabelle&tbm=isch'')]
                               else [])]
                  else [])
             (\<lambda>_. [])]
     else [])"

text \<open>A Bing page with two cards: a redirect link with a base64 target, and a direct link.\<close>

definition bing_page :: document where
  "bing_page = (\<lambda>selector.
     if selector = ''.b_algo''
     then [Elem ''Example'' None
             (\<lambda>s. if s = ''h2 a''
                  then [leaf '' Example ''
                          (Some ''https://www.bing.com/ck/a?!&&p=abc&u=a1aHR0cHM6Ly9lLmNvbQ&ntb=1'')]
                  else if s = ''.b_caption p''
                  then [leaf ''An example domain for use in documents.'' None]
                  else [])
             (\<lambda>_. []),
           Elem ''Isabelle'' None
             (\<lambda>s. if s = ''h2 a''
                  then [leaf ''Isabelle'' (Some ''https://isabelle.in.tum.de/'')]
                  else [])
             (\<lambda>_. [])]
     else [])"

text \<open>A Bing page with one card, whose link is a redirect without a target parameter.\<close>

definition bing_tracking_page :: document where
  "bing_tracking_page = (\<lambda>selector.
     if selector = ''.b_algo''
     then [Elem ''Sponsored'' None
             (\<lambda>s. if s = ''h2 a''
                  then [leaf ''Sponsored'' (Some ''https://www.bing.com/ck/a?p=3f2a&ntb=1'')]
                  else [])
             (\<lambda>_. [])]
     else [])"

text \<open>A Google page with one card, whose heading sits inside a link to the target site.\<close>

definition google_web_page :: document where
  "google_web_page = (\<lambda>selector.
     if selector = ''div.g''
     then [Elem ''Isabelle'' None
             (\<lambda>s. if s = ''h3''
                  then [Elem ''Isabelle'' None (\<lambda>_. [])
                          (\<lambda>c. if c = ''a''
                               then [leaf ''Isabelle'' (Some ''https://isabelle.in.tum.de/'')]
                               else [])]
                  else [])
             (\<lambda>_. [])]
     else [])"

text \<open>A Brave page with one card, with a protocol-relative link.\<close>

definition brave_page :: document where
  "brave_page = (\<lambda>selector.
     if selector = ''[data-type=\"web\"]''
     then [Elem ''Example'' None
             (\<lambda>s. if s = ''.title a'' then [leaf ''Example'' (Some ''//example.com/a'')] else [])
             (\<lambda>_. [])]
     else [])"

text \<open>A DuckDuckGo page with two cards: a redirect link and a direct link.\<close>

definition duckduckgo_page :: document where
  "duckduckgo_page = (\<lambda>selector.
     if selector = ''.result''
     then [Elem ''Example'' None
             (\<lambda>s. if s = ''.result__title a''
                  then [leaf ''Example''
                          (Some ''//duckduckgo.com/l/?uddg=https%3A%2F%2Fexample.com%2Fa&rut=abc'')]
                  else [])
             (\<lambda>_. []),
           Elem ''Example Org'' None
             (\<lambda>s. if s = ''.result__title a''
                  then [leaf ''Example Org'' (Some ''https://example.org/'')]
                  else if s = ''.result__snippet'' then [leaf ''An example.'' None]
                  else [])
             (\<lambda>_. [])]
     else [])"

text \<open>A Google page with one card, whose heading sits inside a redirect link.\<close>

definition google_redirect_page :: document where
  "google_redirect_page = (\<lambda>selector.
     if selector = ''div.g''
     then [Elem ''Isabelle'' None
             (\<lambda>s. if s = ''h3''
                  then [Elem ''Isabelle'' None (\<lambda>_. [])
                          (\<lambda>c. if c = ''a''
                               then [leaf ''Isabelle''
                                       (Some ''/url?q=https://isabelle.in.tum.de/&sa=U&ved=2ah'')]
                               else [])]
                  else [])
             (\<lambda>_. [])]
     else [])"

section \<open>assessResultQuality (search-engine.js)\<close>

text \<open>
  Scores are JavaScript numbers; they are modelled as real numbers, so the rounding of the
  double-precision sums and quotients is not represented.
\<close>

definition commonWords :: "string list" where
  "commonWords =
     [''the'', ''a'', ''an'', ''and'', ''or'', ''but'', ''in'', ''on'', ''at'', ''to'', ''for'', ''of'',
      ''with'', ''by'', ''is'', ''are'', ''was'', ''were'', ''be'', ''been'', ''have'', ''has'', ''had'',
      ''do'', ''does'', ''did'', ''will'', ''would'', ''could'', ''should'', ''may'', ''might'', ''must'',
      ''can'', ''group'', ''members'']"

text \<open>\<open>originalQuery.toLowerCase().replace(/[^\w\s]/g, ' ').split(/\s+/).filter(...)\<close>.\<close>

definition queryWords :: "string \<Rightarrow> string list" where
  "queryWords originalQuery =
     filter (\<lambda>word. length word > 2 \<and> \<not> List.member commonWords word)
       (split_ws (map (\<lambda>c. if is_word_char c \<or> is_space c then c else CHR '' '')
                      (toLowerCase originalQuery)))"

text \<open>The phrases tried: every pair of neighbouring query words, then the first three words
  when there are at least three.\<close>

definition queryPhrases :: "string list \<Rightarrow> string list" where
  "queryPhrases ws =
     (if length ws \<ge> 2
      then map (\<lambda>i. join '' '' (take 2 (drop i ws))) [0 ..< length ws - 1]
           @ (if length ws \<ge> 3 then [join '' '' (take 3 ws)] else [])
      else [])"

text \<open>The patterns are literals matched without regard to case.\<close>

definition irrelevantPatterns :: "string list" where
  "irrelevantPatterns =
     [''recipe'', ''cooking'', ''food'', ''restaurant'', ''menu'',
      ''weather'', ''temperature'', ''forecast'',
      ''shopping'', ''sale'', ''price'', ''buy'', ''store'',
      ''movie'', ''film'', ''tv show'', ''entertainment'',
      ''sports'', ''game'', ''score'', ''team'',
      ''fashion'', ''clothing'', ''style'',
      ''travel'', ''hotel'', ''flight'', ''vacation'',
      ''car'', ''vehicle'', ''automotive'',
      ''real estate'', ''property'', ''house'', ''apartment'']"

definition pattern_test :: "string \<Rightarrow> string \<Rightarrow> bool" where
  "pattern_test pattern s = str_includes (toLowerCase s) (toLowerCase pattern)"

definition combinedText :: "search_result \<Rightarrow> string" where
  "combinedText result =
     toLowerCase (title result) @ '' '' @ toLowerCase (description result) @ '' ''
       @ toLowerCase (url result)"

text \<open>The counting loops: a counter that is incremented for each item that passes the test.\<close>

definition count_matches :: "('a \<Rightarrow> bool) \<Rightarrow> 'a list \<Rightarrow> nat" where
  "count_matches test items = fold (\<lambda>item n. if test item then n + 1 else n) items 0"

definition finalScore :: "string list \<Rightarrow> search_result \<Rightarrow> real" where
  "finalScore ws result =
     (let text = combinedText result;
          phraseMatches = count_matches (str_includes text) (queryPhrases ws);
          keywordMatches = count_matches (str_includes text) ws;
          keywordRatio = real keywordMatches / real (length ws);
          phraseBonus = real phraseMatches * (3 / 10);
          resultScore = min 1 (keywordRatio + phraseBonus);
          penalty = fold (\<lambda>pattern p. if pattern_test pattern text then p + 2 / 10 else p)
                      irrelevantPatterns 0
      in max 0 (resultScore - penalty))"

definition assessResultQuality :: "search_result list \<Rightarrow> string \<Rightarrow> real" where
  "assessResultQuality results originalQuery =
     (if results = [] then 0
      else (let ws = queryWords originalQuery in
            if ws = [] then 1 / 2
            else (case fold (\<lambda>result (totalScore, scoredResults).
                               (totalScore + finalScore ws result, scoredResults + 1))
                         results (0, 0 :: nat) of
                    (totalScore, scoredResults) \<Rightarrow>
                      if scoredResults > 0 then totalScore / real scoredResults else 0)))"

subsection \<open>The definition the specification gives\<close>

text \<open>
  Zero for no results; one half when no query term longer than two characters survives the
  stop-word removal; otherwise the mean, over the results, of
  \<open>max(0, min(1, hitRatio + 0.3 per matched phrase) - 0.2 per matched off-topic pattern)\<close>.
\<close>

definition hitRatio :: "string list \<Rightarrow> search_result \<Rightarrow> real" where
  "hitRatio terms result =
     real (length (filter (str_includes (combinedText result)) terms)) / real (length terms)"

definition matchedPhrases :: "string list \<Rightarrow> search_result \<Rightarrow> nat" where
  "matchedPhrases terms result =
     length (filter (str_includes (combinedText result)) (queryPhrases terms))"

definition matchedPatterns :: "search_result \<Rightarrow> nat" where
  "matchedPatterns result =
     length (filter (\<lambda>pattern. pattern_test pattern (combinedText result)) irrelevantPatterns)"

definition resultScore_spec :: "string list \<Rightarrow> search_result \<Rightarrow> real" where
  "resultScore_spec terms result =
     max 0 (min 1 (hitRatio terms result + 3 / 10 * real (matchedPhrases terms result))
            - 2 / 10 * real (matchedPatterns result))"

definition quality_spec :: "search_result list \<Rightarrow> string \<Rightarrow> real" where
  "quality_spec results query =
     (if results = [] then 0
      else if queryWords query = [] then 1 / 2
      else sum_list (map (resultScore_spec (queryWords query)) results) / real (length results))"

subsection \<open>Example results\<close>

definition paris_wikipedia :: search_result where
  "paris_wikipedia =
     \<lparr>title = ''Paris - Wikipedia'', url = ''https://en.wikipedia.org/wiki/Paris'',
      description = ''Paris is the capital of France.'', fullContent = [], contentPreview = [],
      wordCount = 0, timestamp = ''t'', fetchStatus = Success, error = None\<rparr>"

definition paris_hotels :: search_result where
  "paris_hotels =
     \<lparr>title = ''Paris hotels'', url = ''https://hotels.example.com/paris'',
      description = ''Book a hotel.'', fullContent = [], contentPreview = [],
      wordCount = 0, timestamp = ''t'', fetchStatus = Success, error = None\<rparr>"

section \<open>BrowserPool (browser-pool.js)\<close>

text \<open>
  A browser is a handle (a number). \<open>browsers\<close> is a JavaScript \<open>Map\<close>, modelled as the list of
  its entries in iteration order, which is the order in which the keys were inserted: \<open>set\<close>
  on a key that is present replaces the value in place, \<open>set\<close> on a new key appends, \<open>delete\<close>
  removes the entry. \<open>closeCalls\<close> lists the browsers on which \<open>close()\<close> has been called; it
  stands for the effect on the browser processes and is not a field of the class.
  \<open>maxBrowsers\<close> is what \<open>parseInt\<close> made of the environment variable: an integer of
  either sign, or \<open>NaN\<close>; every comparison with \<open>NaN\<close> is false.
\<close>

type_synonym browser = nat

datatype js_number = Number int | NaN

definition exceeds :: "nat \<Rightarrow> js_number \<Rightarrow> bool" where
  "exceeds n mx = (case mx of Number m \<Rightarrow> int n > m | NaN \<Rightarrow> False)"


record browser_pool =
  browsers :: "(string \<times> browser) list"
  maxBrowsers :: js_number
  browserTypes :: "string list"
  currentBrowserIndex :: nat
  headless :: bool
  lastUsedBrowserType :: string
  closeCalls :: "browser list"

definition new_browser_pool :: "js_number \<Rightarrow> string list \<Rightarrow> bool \<Rightarrow> browser_pool" where
  "new_browser_pool maxB types hl =
     \<lparr>browsers = [], maxBrowsers = maxB, browserTypes = types, currentBrowserIndex = 0,
      headless = hl, lastUsedBrowserType = [], closeCalls = []\<rparr>"

fun map_set :: "('k \<times> 'v) list \<Rightarrow> 'k \<Rightarrow> 'v \<Rightarrow> ('k \<times> 'v) list" where
  "map_set [] k v = [(k, v)]"
| "map_set ((k1, v1) # kvs) k v = (if k1 = k then (k, v) # kvs else (k1, v1) # map_set kvs k v)"

definition map_delete :: "('k \<times> 'v) list \<Rightarrow> 'k \<Rightarrow> ('k \<times> 'v) list" where
  "map_delete kvs k = filter (\<lambda>kv. fst kv \<noteq> k) kvs"

text \<open>
  What the outside world does during one call: the outcome of the health check of the cached
  browser (connected and the throwaway context opens and closes; not connected; or an
  exception), and the outcome of the launch (an error, or the new browser). A failing
  \<open>close()\<close> is caught and changes nothing.
\<close>

datatype health = Healthy | Disconnected | Unhealthy

record call_env =
  cached_health :: health
  launched :: "string + browser"

text \<open>The statements after \<open>this.browsers.set(browserType, browser)\<close>.\<close>

definition evict_oldest :: "browser_pool \<Rightarrow> browser_pool" where
  "evict_oldest p =
     (case browsers p of
        [] \<Rightarrow> p
      | (k, b) # _ \<Rightarrow> p\<lparr>closeCalls := closeCalls p @ [b], browsers := map_delete (browsers p) k\<rparr>)"

definition launch_browser :: "call_env \<Rightarrow> string \<Rightarrow> browser_pool \<Rightarrow> browser_pool \<times> (string + browser)" where
  "launch_browser env browserType p =
     (case launched env of
        Inl err \<Rightarrow> (p, Inl err)
      | Inr b \<Rightarrow>
          (let p1 = p\<lparr>browsers := map_set (browsers p) browserType b\<rparr> in
           (if exceeds (length (browsers p1)) (maxBrowsers p1) then evict_oldest p1 else p1, Inr b)))"

text \<open>The rotation \<open>browserTypes[currentBrowserIndex % browserTypes.length]\<close>;
  \<open>browserTypes\<close> is the result of a \<open>split\<close> and so never empty.\<close>

definition next_browser_type :: "browser_pool \<Rightarrow> string" where
  "next_browser_type p = browserTypes p ! (currentBrowserIndex p mod length (browserTypes p))"

text \<open>
  \<open>getBrowser\<close> for a call during which no other call of \<open>getBrowser\<close> runs: all its
  statements, from entry to \<open>return\<close> or \<open>throw\<close>, in one step.
\<close>

definition getBrowser :: "call_env \<Rightarrow> browser_pool \<Rightarrow> browser_pool \<times> (string + browser)" where
  "getBrowser env p =
     (let browserType = next_browser_type p;
          p1 = p\<lparr>currentBrowserIndex := currentBrowserIndex p + 1,
                 lastUsedBrowserType := browserType\<rparr>
      in case map_of (browsers p1) browserType of
           None \<Rightarrow> launch_browser env browserType p1
         | Some b \<Rightarrow>
             (case cached_health env of
                Healthy \<Rightarrow> (p1, Inr b)
              | Disconnected \<Rightarrow> launch_browser env browserType p1
              | Unhealthy \<Rightarrow>
                  launch_browser env browserType
                    (p1\<lparr>browsers := map_delete (browsers p1) browserType,
                        closeCalls := closeCalls p1 @ [b]\<rparr>)))"


definition closeAll :: "browser_pool \<Rightarrow> browser_pool" where
  "closeAll p = p\<lparr>closeCalls := closeCalls p @ map snd (browsers p), browsers := []\<rparr>"


subsection \<open>Overlapping calls\<close>









subsection \<open>Example pools\<close>

text \<open>A pool for one browser and two families after its first call, and a pool for one
  family after its first call.\<close>

definition launch_of :: "browser \<Rightarrow> call_env" where
  "launch_of b = \<lparr>cached_health = Healthy, launched = Inr b\<rparr>"

definition chromium_cached :: browser_pool where
  "chromium_cached =
     fst (getBrowser (launch_of 1) (new_browser_pool (Number 1) [''chromium'', ''firefox''] True))"




section \<open>SearchEngine.search (search-engine.js)\<close>

text \<open>
  What an engine method does depends on the network and on a browser; for one search it is
  given as a function from the arguments it receives (query, number of results, timeout) to
  its outcome: the parsed results, or the value it throws. A thrown value is an \<open>Error\<close> with
  its message, or something else.
\<close>

datatype thrown = ErrorObject string | OtherValue

datatype attempt_outcome = Returned "search_result list" | Threw thrown

type_synonym engine_method = "string \<Rightarrow> int \<Rightarrow> real \<Rightarrow> attempt_outcome"

record engines =
  tryBrowserBingSearch :: engine_method
  tryBrowserBraveSearch :: engine_method
  tryDuckDuckGoSearch :: engine_method

text \<open>The configuration read from the environment at the start of a search.\<close>

record search_config =
  enableQualityCheck :: bool
  qualityThreshold :: real
  forceMultiEngine :: bool
  debugBrowsers :: bool

record search_options =
  query :: string
  numResults :: "int option"
  timeout :: "real option"

text \<open>The lines that \<open>search\<close>, \<open>handleBrowserError\<close> and \<open>closeAll\<close> write with
  \<open>console.error\<close>, by their content.\<close>

datatype log_line =
    StartingSearch string
  | StartingEngines
  | QualityConfig bool real bool bool
  | Attempting string nat nat
  | FoundResults nat string
  | QualityScore string real
  | ExcellentQuality string
  | GoodQuality string
  | UsingBest string real
  | LowQualityBest string
  | ContinuingAfter string real
  | ApproachFailed string thrown
  | BrowserError string nat string
  | SessionClosureDetected
  | PoolClosing nat
  | PoolRefreshed string
  | AllApproachesFailed
  | SearchError rate_limit_error

text \<open>The object: its rate limiter, its browser pool, and the console it writes to.\<close>

record search_engine =
  rateLimiter :: rate_limiter
  browserPool :: browser_pool
  console :: "log_line list"

definition log_to :: "log_line \<Rightarrow> search_engine \<Rightarrow> search_engine" where
  "log_to line se = se\<lparr>console := console se @ [line]\<rparr>"

text \<open>The local variables \<open>bestResults\<close>, \<open>bestEngine\<close>, \<open>bestQuality\<close>.\<close>

record best =
  bestResults :: "search_result list"
  bestEngine :: string
  bestQuality :: real

type_synonym search_answer = "search_result list \<times> string"

definition sanitizeQuery :: "string \<Rightarrow> string" where
  "sanitizeQuery q = take 1000 (trim q)"

definition errorMessage :: "thrown \<Rightarrow> string" where
  "errorMessage e = (case e of ErrorObject m \<Rightarrow> m | OtherValue \<Rightarrow> ''Unknown error'')"

definition session_closed :: "string \<Rightarrow> bool" where
  "session_closed msg =
     (str_includes msg ''Target page, context or browser has been closed'' \<or>
      str_includes msg ''Browser has been closed'' \<or>
      str_includes msg ''Session has been closed'')"

definition handleBrowserError :: "thrown \<Rightarrow> string \<Rightarrow> search_engine \<Rightarrow> search_engine" where
  "handleBrowserError e engineName se =
     (let se1 = log_to (BrowserError engineName 1 (errorMessage e)) se in
      if session_closed (errorMessage e)
      then (let se2 = log_to SessionClosureDetected se1;
                se3 = log_to (PoolClosing (length (browsers (browserPool se2)))) se2;
                se4 = se3\<lparr>browserPool := closeAll (browserPool se3)\<rparr>
            in log_to (PoolRefreshed engineName) se4)
      else se1)"

text \<open>
  The body of the \<open>for\<close> loop for the approach at index \<open>i\<close> of \<open>n\<close>: the answer to return,
  if the body returns, and the locals and the object after it.
\<close>

definition attempt ::
  "search_config \<Rightarrow> string \<Rightarrow> int \<Rightarrow> real \<Rightarrow> nat \<Rightarrow> nat \<Rightarrow> string \<times> engine_method \<Rightarrow>
     best \<Rightarrow> search_engine \<Rightarrow> search_answer option \<times> best \<times> search_engine" where
  "attempt cfg sanitizedQuery numRes tmo i n approach bst se =
     (case approach of
        (name, call) \<Rightarrow>
          (let se1 = log_to (Attempting name (i + 1) n) se;
               approachTimeout = min (tmo / 3) 4000
           in case call sanitizedQuery numRes approachTimeout of
                Threw e \<Rightarrow>
                  (None, bst, handleBrowserError e name (log_to (ApproachFailed name e) se1))
              | Returned results \<Rightarrow>
                  if length results > 0
                  then (let se2 = log_to (FoundResults (length results) name) se1;
                            qualityScore = (if enableQualityCheck cfg
                                            then assessResultQuality results sanitizedQuery
                                            else 1);
                            se3 = log_to (QualityScore name qualityScore) se2;
                            bst1 = (if qualityScore > bestQuality bst
                                    then \<lparr>bestResults = results, bestEngine = name,
                                          bestQuality = qualityScore\<rparr>
                                    else bst)
                        in if qualityScore \<ge> 8 / 10 \<and> \<not> forceMultiEngine cfg
                           then (Some (results, name), bst1, log_to (ExcellentQuality name) se3)
                           else if qualityScore \<ge> qualityThreshold cfg \<and> name \<noteq> ''Browser Bing''
                                   \<and> \<not> forceMultiEngine cfg
                           then (Some (results, name), bst1, log_to (GoodQuality name) se3)
                           else if int i = int n - 1
                           then (if bestQuality bst1 \<ge> qualityThreshold cfg \<or> \<not> enableQualityCheck cfg
                                 then (Some (bestResults bst1, bestEngine bst1), bst1,
                                       log_to (UsingBest (bestEngine bst1) (bestQuality bst1)) se3)
                                 else if length (bestResults bst1) > 0
                                 then (Some (bestResults bst1, bestEngine bst1), bst1,
                                       log_to (LowQualityBest (bestEngine bst1)) se3)
                                 else (None, bst1, se3))
                           else (None, bst1, log_to (ContinuingAfter name qualityScore) se3))
                  else (None, bst, se1)))"

text \<open>The \<open>for\<close> loop from index \<open>i\<close> on; \<open>None\<close> when it ends without a \<open>return\<close>.\<close>

fun try_approaches ::
  "search_config \<Rightarrow> string \<Rightarrow> int \<Rightarrow> real \<Rightarrow> nat \<Rightarrow> nat \<Rightarrow> (string \<times> engine_method) list \<Rightarrow>
     best \<Rightarrow> search_engine \<Rightarrow> search_answer option \<times> best \<times> search_engine" where
  "try_approaches cfg q numRes tmo i n [] bst se = (None, bst, se)"
| "try_approaches cfg q numRes tmo i n (approach # rest) bst se =
     (case attempt cfg q numRes tmo i n approach bst se of
        (Some answer, bst1, se1) \<Rightarrow> (Some answer, bst1, se1)
      | (None, bst1, se1) \<Rightarrow> try_approaches cfg q numRes tmo (i + 1) n rest bst1 se1)"

definition approaches :: "engines \<Rightarrow> (string \<times> engine_method) list" where
  "approaches eng =
     [(''Browser Bing'', tryBrowserBingSearch eng),
      (''Browser Brave'', tryBrowserBraveSearch eng),
      (''Axios DuckDuckGo'', tryDuckDuckGoSearch eng)]"

text \<open>The callback that \<open>search\<close> hands to the rate limiter.\<close>

definition search_engines ::
  "search_config \<Rightarrow> engines \<Rightarrow> string \<Rightarrow> int \<Rightarrow> real \<Rightarrow> search_engine \<Rightarrow> search_engine \<times> search_answer" where
  "search_engines cfg eng sanitizedQuery numRes tmo se =
     (let se1 = log_to (QualityConfig (enableQualityCheck cfg) (qualityThreshold cfg)
                          (forceMultiEngine cfg) (debugBrowsers cfg))
                  (log_to StartingEngines se)
      in case try_approaches cfg sanitizedQuery numRes tmo 0 (length (approaches eng))
                (approaches eng)
                \<lparr>bestResults = [], bestEngine = ''None'', bestQuality = 0\<rparr> se1 of
           (Some answer, bst, se2) \<Rightarrow> (se2, answer)
         | (None, bst, se2) \<Rightarrow> (log_to AllApproachesFailed se2, ([], ''None'')))"

text \<open>
  \<open>search\<close>: the only exception that reaches the outer \<open>catch\<close> is the one of the rate
  limiter, rethrown as \<open>Failed to perform search: ...\<close>. The callback does not touch the rate
  limiter, so its outcome is computed on the object as it is at the call.
\<close>

datatype search_error = SearchFailed rate_limit_error

definition search ::
  "search_config \<Rightarrow> engines \<Rightarrow> int \<Rightarrow> search_options \<Rightarrow> search_engine \<Rightarrow>
     search_engine \<times> (search_error + search_answer)" where
  "search cfg eng now options se =
     (let numRes = (case numResults options of None \<Rightarrow> 5 | Some k \<Rightarrow> k);
          tmo = (case timeout options of None \<Rightarrow> 10000 | Some t \<Rightarrow> t);
          sanitizedQuery = sanitizeQuery (query options);
          se1 = log_to (StartingSearch sanitizedQuery) se
      in case execute (rateLimiter se1) now (search_engines cfg eng sanitizedQuery numRes tmo se1) of
           (rl, Inl e) \<Rightarrow> (log_to (SearchError e) (se1\<lparr>rateLimiter := rl\<rparr>), Inl (SearchFailed e))
         | (rl, Inr (se2, answer)) \<Rightarrow> (se2\<lparr>rateLimiter := rl\<rparr>, Inr answer))"

subsection \<open>Example searches\<close>

definition default_config :: search_config where
  "default_config =
     \<lparr>enableQualityCheck = True, qualityThreshold = 3 / 10, forceMultiEngine = False,
      debugBrowsers = False\<rparr>"

definition forced_config :: search_config where
  "forced_config = default_config\<lparr>forceMultiEngine := True\<rparr>"

definition new_search_engine :: "int \<Rightarrow> search_engine" where
  "new_search_engine now =
     \<lparr>rateLimiter = new_rate_limiter 10 now,
      browserPool = new_browser_pool (Number 3) [''chromium'', ''firefox''] True,
      console = []\<rparr>"

definition no_best :: best where
  "no_best = \<lparr>bestResults = [], bestEngine = ''None'', bestQuality = 0\<rparr>"

text \<open>Bing answers with two results of middling relevance; Brave and DuckDuckGo fail.\<close>

definition bing_only :: engines where
  "bing_only =
     \<lparr>tryBrowserBingSearch = (\<lambda>q k t. Returned [paris_wikipedia, paris_hotels]),
      tryBrowserBraveSearch = (\<lambda>q k t. Threw (ErrorObject ''page.goto: Timeout 3333ms exceeded'')),
      tryDuckDuckGoSearch = (\<lambda>q k t. Threw (ErrorObject ''DuckDuckGo search failed''))\<rparr>"

definition paris_options :: search_options where
  "paris_options = \<lparr>query = ''Paris capital France'', numResults = None, timeout = None\<rparr>"

text \<open>The value of the local \<open>qualityScore\<close> for a non-empty result set.\<close>

definition quality_score :: "search_config \<Rightarrow> search_result list \<Rightarrow> string \<Rightarrow> real" where
  "quality_score cfg results sanitizedQuery =
     (if enableQualityCheck cfg then assessResultQuality results sanitizedQuery else 1)"

text \<open>The locals after a result set has been compared with the best so far.\<close>

definition track_best :: "best \<Rightarrow> search_result list \<Rightarrow> string \<Rightarrow> real \<Rightarrow> best" where
  "track_best bst results name qualityScore =
     (if qualityScore > bestQuality bst
      then \<lparr>bestResults = results, bestEngine = name, bestQuality = qualityScore\<rparr>
      else bst)"

text \<open>An engine that answers with the given results, and one that throws the given error.\<close>

definition answering :: "search_result list \<Rightarrow> engine_method" where
  "answering results = (\<lambda>q k t. Returned results)"

definition failing :: "string \<Rightarrow> engine_method" where
  "failing msg = (\<lambda>q k t. Threw (ErrorObject msg))"

definition closed_message :: string where
  "closed_message = ''browserContext.newPage: Target page, context or browser has been closed''"

definition pooled_search_engine :: search_engine where
  "pooled_search_engine = (new_search_engine 0)\<lparr>browserPool := chromium_cached\<rparr>"

definition bing_best :: best where
  "bing_best =
     \<lparr>bestResults = [paris_wikipedia, paris_hotels], bestEngine = ''Browser Bing'',
      bestQuality = 17 / 30\<rparr>"

text \<open>Every engine answers with a result that shares no term with the query.\<close>

definition all_hotels :: engines where
  "all_hotels =
     \<lparr>tryBrowserBingSearch = answering [paris_hotels],
      tryBrowserBraveSearch = answering [paris_hotels],
      tryDuckDuckGoSearch = answering [paris_hotels]\<rparr>"

definition physics_options :: search_options where
  "physics_options = \<lparr>query = ''quantum physics'', numResults = None, timeout = None\<rparr>"

section \<open>Properties of the rate limiter\<close>

lemma execute_in_window:
  assumes "now - lastResetTime rl < resetIntervalMs"
  shows "execute rl now task =
     (if requestCount rl \<ge> maxRequestsPerMinute rl
      then (rl, Inl (RateLimitExceeded \<lceil>real_of_int (resetIntervalMs - (now - lastResetTime rl)) / 1000\<rceil>))
      else (rl\<lparr>requestCount := requestCount rl + 1\<rparr>, Inr task))"
  using assms by (simp add: execute_def check_rate_limit_def reset_window_def dispatch_def Let_def)

lemma execute_all_Cons:
  "execute_all rl ((now, task) # rest) =
     (fst (execute_all (fst (execute rl now task)) rest),
      snd (execute rl now task) # snd (execute_all (fst (execute rl now task)) rest))"
  by (simp split: prod.splits)

lemma execute_all_in_window:
  assumes "\<forall>t \<in> set (map fst subs). t - lastResetTime rl < resetIntervalMs"
    and "k < length subs"
  shows "snd (execute_all rl subs) ! k =
     (if requestCount rl + int k < maxRequestsPerMinute rl
      then Inr (snd (subs ! k))
      else Inl (RateLimitExceeded
             \<lceil>real_of_int (resetIntervalMs - (fst (subs ! k) - lastResetTime rl)) / 1000\<rceil>))"
  using assms
proof (induction subs arbitrary: rl k)
  case Nil
  then show ?case by simp
next
  case (Cons s subs)
  obtain now task where s: "s = (now, task)" by (cases s)
  from Cons.prems(1) s have w: "now - lastResetTime rl < resetIntervalMs" by simp
  show ?case
  proof (cases "requestCount rl \<ge> maxRequestsPerMinute rl")
    case True
    then have ex: "execute rl now task = (rl, Inl (RateLimitExceeded \<lceil>real_of_int (resetIntervalMs - (now - lastResetTime rl)) / 1000\<rceil>))"
      using execute_in_window[OF w] by simp
    show ?thesis
    proof (cases k)
      case 0
      then show ?thesis using True ex s by (simp add: execute_all_Cons del: execute_all.simps)
    next
      case (Suc j)
      with Cons.prems have j: "j < length subs" by simp
      from Cons.prems(1) have "\<forall>t \<in> set (map fst subs). t - lastResetTime rl < resetIntervalMs" by simp
      from Cons.IH[OF this j] show ?thesis using True ex s Suc by (simp add: execute_all_Cons del: execute_all.simps)
    qed
  next
    case False
    let ?rl1 = "rl\<lparr>requestCount := requestCount rl + 1\<rparr>"
    from False have ex: "execute rl now task = (?rl1, Inr task)"
      using execute_in_window[OF w] by simp
    show ?thesis
    proof (cases k)
      case 0
      then show ?thesis using False ex s by (simp add: execute_all_Cons del: execute_all.simps)
    next
      case (Suc j)
      with Cons.prems have j: "j < length subs" by simp
      from Cons.prems(1) have "\<forall>t \<in> set (map fst subs). t - lastResetTime ?rl1 < resetIntervalMs" by simp
      from Cons.IH[OF this j] show ?thesis using False ex s Suc by (simp add: execute_all_Cons algebra_simps del: execute_all.simps)
    qed
  qed
qed

lemma execute_all_window_state:
  assumes "\<forall>t \<in> set (map fst subs). t - lastResetTime rl < resetIntervalMs"
  shows "lastResetTime (fst (execute_all rl subs)) = lastResetTime rl
       \<and> maxRequestsPerMinute (fst (execute_all rl subs)) = maxRequestsPerMinute rl
       \<and> requestCount rl \<le> requestCount (fst (execute_all rl subs))"
  using assms
proof (induction subs arbitrary: rl)
  case Nil
  then show ?case by simp
next
  case (Cons s subs)
  obtain now task where s: "s = (now, task)" by (cases s)
  from Cons.prems s have w: "now - lastResetTime rl < resetIntervalMs" by simp
  let ?rl1 = "fst (execute rl now task)"
  have st: "lastResetTime ?rl1 = lastResetTime rl \<and> maxRequestsPerMinute ?rl1 = maxRequestsPerMinute rl
      \<and> requestCount rl \<le> requestCount ?rl1"
    using execute_in_window[OF w, of task] by simp
  with Cons.prems have "\<forall>t \<in> set (map fst subs). t - lastResetTime ?rl1 < resetIntervalMs" by simp
  from Cons.IH[OF this] st s show ?case
    by (simp add: execute_all_Cons del: execute_all.simps)
qed

lemma ceil_ms_to_seconds: "\<lceil>real_of_int w / 1000\<rceil> = - ((- w) div 1000)"
  using ceiling_divide_eq_div[of w 1000] by simp

text \<open>
  Claim C5. Awaited calls of \<open>execute\<close> inside one window, on a fresh limiter with a positive
  quota: the first \<open>maxRequestsPerMinute\<close> submissions run their task, the next one fails at
  once with \<open>RateLimitExceeded\<close> carrying the seconds left until the window ends; a call made
  once 60000 ms have passed since the window start resets the counter, runs its task and leaves
  the counter at 1. A task is dispatched only when the counter (after the reset check) is below
  the quota, and then the counter grows by one; without a reset the counter never decreases, and
  the reset check sets it to zero exactly when \<open>now - lastResetTime \<ge> 60000\<close>.
\<close>

theorem rate_limiter_window_quota:
  fixes rl rl0 :: rate_limiter and subs :: "(int \<times> 'a) list" and task task0 :: 'a
  assumes fresh: "requestCount rl = 0"
    and quota: "0 < maxRequestsPerMinute rl"
    and n: "length subs = nat (maxRequestsPerMinute rl) + 1"
    and inside: "\<forall>t \<in> set (map fst subs). t - lastResetTime rl < resetIntervalMs"
    and elapsed: "later - lastResetTime rl \<ge> resetIntervalMs"
  shows "(\<forall>k < nat (maxRequestsPerMinute rl). snd (execute_all rl subs) ! k = Inr (snd (subs ! k)))
    \<and> snd (execute_all rl subs) ! nat (maxRequestsPerMinute rl) =
        Inl (RateLimitExceeded
          \<lceil>real_of_int (resetIntervalMs - (fst (last subs) - lastResetTime rl)) / 1000\<rceil>)
    \<and> execute (fst (execute_all rl subs)) later task =
        (\<lparr>requestCount = 1, lastResetTime = later,
          maxRequestsPerMinute = maxRequestsPerMinute rl\<rparr>, Inr task)
    \<and> (execute rl0 now0 task0 = (rl1, Inr r) \<longrightarrow>
          requestCount (reset_window rl0 now0) < maxRequestsPerMinute rl0 \<and>
          requestCount rl1 = requestCount (reset_window rl0 now0) + 1)
    \<and> (now0 - lastResetTime rl0 < resetIntervalMs \<longrightarrow>
          requestCount rl0 \<le> requestCount (fst (execute rl0 now0 task0)))
    \<and> requestCount (reset_window rl0 now0) =
          (if now0 - lastResetTime rl0 \<ge> resetIntervalMs then 0 else requestCount rl0)"
proof (intro conjI impI allI)
  fix k assume k: "k < nat (maxRequestsPerMinute rl)"
  with n have "k < length subs" by simp
  from execute_all_in_window[OF inside this] fresh k
  show "snd (execute_all rl subs) ! k = Inr (snd (subs ! k))" by auto
next
  from n have len: "nat (maxRequestsPerMinute rl) < length subs" by simp
  from n have ne: "subs \<noteq> []" by auto
  from n have "subs ! nat (maxRequestsPerMinute rl) = last subs"
    using last_conv_nth[OF ne] by simp
  with execute_all_in_window[OF inside len] fresh quota
  show "snd (execute_all rl subs) ! nat (maxRequestsPerMinute rl) =
        Inl (RateLimitExceeded
          \<lceil>real_of_int (resetIntervalMs - (fst (last subs) - lastResetTime rl)) / 1000\<rceil>)"
    by auto
next
  let ?rl2 = "fst (execute_all rl subs)"
  from execute_all_window_state[OF inside]
  have "lastResetTime ?rl2 = lastResetTime rl" "maxRequestsPerMinute ?rl2 = maxRequestsPerMinute rl"
    by simp_all
  with elapsed quota
  show "execute ?rl2 later task =
        (\<lparr>requestCount = 1, lastResetTime = later,
          maxRequestsPerMinute = maxRequestsPerMinute rl\<rparr>, Inr task)"
    by (simp add: execute_def check_rate_limit_def reset_window_def dispatch_def Let_def)
next
  assume "execute rl0 now0 task0 = (rl1, Inr r)"
  then show "requestCount (reset_window rl0 now0) < maxRequestsPerMinute rl0"
    by (auto simp: execute_def check_rate_limit_def reset_window_def dispatch_def Let_def split: if_splits)
next
  assume "execute rl0 now0 task0 = (rl1, Inr r)"
  then show "requestCount rl1 = requestCount (reset_window rl0 now0) + 1"
    by (auto simp: execute_def check_rate_limit_def reset_window_def dispatch_def Let_def split: if_splits)
next
  assume "now0 - lastResetTime rl0 < resetIntervalMs"
  then show "requestCount rl0 \<le> requestCount (fst (execute rl0 now0 task0))"
    by (simp add: execute_def check_rate_limit_def reset_window_def dispatch_def Let_def)
next
  show "requestCount (reset_window rl0 now0) =
          (if now0 - lastResetTime rl0 \<ge> resetIntervalMs then 0 else requestCount rl0)"
    by (simp add: reset_window_def)
qed

theorem rate_limiter_window_quota_witness:
  "requestCount (new_rate_limiter 2 0) = 0
   \<and> 0 < maxRequestsPerMinute (new_rate_limiter 2 0)
   \<and> length [(100, ''a''), (200, ''b''), (59001, ''c'')] = nat (maxRequestsPerMinute (new_rate_limiter 2 0)) + 1
   \<and> list_all (\<lambda>t. t - lastResetTime (new_rate_limiter 2 0) < resetIntervalMs)
         (map fst [(100, ''a''), (200, ''b''), (59001::int, ''c'')])
   \<and> 60000 - lastResetTime (new_rate_limiter 2 0) \<ge> resetIntervalMs
   \<and> execute (new_rate_limiter 2 0) 100 ''a'' = (\<lparr>requestCount = 1, lastResetTime = 0, maxRequestsPerMinute = 2\<rparr>, Inr ''a'')
   \<and> snd (execute_all (new_rate_limiter 2 0) [(100, ''a''), (200, ''b''), (59001, ''c'')])
        = [Inr ''a'', Inr ''b'', Inl (RateLimitExceeded 1)]
   \<and> execute (fst (execute_all (new_rate_limiter 2 0) [(100, ''a''), (200, ''b''), (59001, ''c'')])) 60000 ''d''
        = (\<lparr>requestCount = 1, lastResetTime = 60000, maxRequestsPerMinute = 2\<rparr>, Inr ''d'')"
  using rate_limiter_window_quota [where rl = "new_rate_limiter 2 0"
      and subs = "[(100, ''a''), (200, ''b''), (59001, ''c'')]" and later = 60000 and task = "''d''"
      and ?rl0.0 = "new_rate_limiter 2 0" and ?now0.0 = 100 and ?task0.0 = "''a''"
      and ?rl1.0 = "\<lparr>requestCount = 1, lastResetTime = 0, maxRequestsPerMinute = 2\<rparr>" and r = "''a''"]
  by (simp add: new_rate_limiter_def execute_def check_rate_limit_def reset_window_def dispatch_def
      Let_def resetIntervalMs_def ceil_ms_to_seconds)

section \<open>Properties of concurrent callers\<close>

lemma start_increments_with_dispatch:
  "step s (Start now) = Some s1 \<Longrightarrow>
     requestCount (limiter s1) = requestCount (limiter s) + 1 \<and> dispatched s1 = dispatched s @ [now]"
  by (auto simp: dispatch_def split: if_splits)

lemma awaited_call_is_execute:
  assumes "queued s = 0" and "activeCount s < concurrency"
    and "snd (check_rate_limit (limiter s) now) = None"
  shows "\<exists>s1. run s [Call now, Start now, Finish] = Some s1 \<and>
           limiter s1 = fst (execute (limiter s) now task) \<and>
           queued s1 = 0 \<and> activeCount s1 = activeCount s"
  using assms by (cases "check_rate_limit (limiter s) now") (auto simp: execute_def)

text \<open>
  Claim C3. The increment of \<open>requestCount\<close> happens in the same atomic step as the start of
  the task, but the quota check happens earlier, when the caller enters \<open>execute\<close>. With a quota
  of ten, eleven concurrent callers are all dispatched inside one window: the run below is a
  run of the system, it starts eleven tasks within the window that began at time 0, and the
  counter ends at eleven.
\<close>

theorem concurrent_callers_exceed_quota:
  "run (new_system 10 0) eleven_callers =
     Some \<lparr>limiter = \<lparr>requestCount = 11, lastResetTime = 0, maxRequestsPerMinute = 10\<rparr>,
           queued = 0, activeCount = 5,
           dispatched = [1, 2, 3, 4, 5, 3001, 3002, 3003, 3004, 3005, 3006], rejected = []\<rparr>
   \<and> dispatched_in_window
        \<lparr>limiter = \<lparr>requestCount = 11, lastResetTime = 0, maxRequestsPerMinute = 10\<rparr>,
         queued = 0, activeCount = 5,
         dispatched = [1, 2, 3, 4, 5, 3001, 3002, 3003, 3004, 3005, 3006], rejected = []\<rparr> 0 = 11"
  by (simp add: new_system_def new_rate_limiter_def eleven_callers_def check_rate_limit_def
      reset_window_def dispatch_def concurrency_def resetIntervalMs_def dispatched_in_window_def Let_def)

section \<open>Properties of URL normalization\<close>

lemma startsWith_append: "startsWith s (p @ q) \<Longrightarrow> startsWith s p"
  by (induction s p rule: startsWith.induct) auto

lemma cleanGoogleUrl_plain:
  "\<not> startsWith v ''/url?'' \<Longrightarrow> \<not> startsWith v ''//'' \<Longrightarrow> cleanGoogleUrl v = v"
  by (simp add: cleanGoogleUrl_def)

lemma cleanBingUrl_plain:
  "\<not> str_includes v ''bing.com/ck/a?'' \<Longrightarrow> \<not> str_includes v ''bing.com/ck/a&'' \<Longrightarrow>
   \<not> startsWith v ''//'' \<Longrightarrow> cleanBingUrl v = v"
  by (simp add: cleanBingUrl_def)

lemma cleanDuckDuckGoUrl_plain:
  assumes "\<not> startsWith v ''//''"
  shows "cleanDuckDuckGoUrl v = v"
proof -
  have "\<not> startsWith v (''//'' @ ''duckduckgo.com/l/'')"
    using assms startsWith_append by blast
  then have "\<not> startsWith v ''//duckduckgo.com/l/''" by simp
  with assms show ?thesis by (simp add: cleanDuckDuckGoUrl_def)
qed

text \<open>
  Claim C9, as stated, fails: each normalizer removes one layer only. A Google redirect whose
  target is protocol-relative, a Bing redirect whose payload is again a Bing redirect, and a
  DuckDuckGo redirect whose target is protocol-relative all change again under a second
  application.
\<close>

theorem normalize_twice_differs:
  "cleanGoogleUrl (cleanGoogleUrl ''/url?q=//example.com&sa=U'')
     \<noteq> cleanGoogleUrl ''/url?q=//example.com&sa=U''
   \<and> cleanGoogleUrl ''/url?q=//example.com&sa=U'' = ''//example.com''
   \<and> cleanGoogleUrl ''//example.com'' = ''https://example.com''
   \<and> cleanBingUrl (cleanBingUrl
        ''https://www.bing.com/ck/a?u=a1aHR0cHM6Ly93d3cuYmluZy5jb20vY2svYT91PWExYUhSMGNITTZMeTlsTG1OdmJR'')
     \<noteq> cleanBingUrl
        ''https://www.bing.com/ck/a?u=a1aHR0cHM6Ly93d3cuYmluZy5jb20vY2svYT91PWExYUhSMGNITTZMeTlsTG1OdmJR''
   \<and> cleanBingUrl
        ''https://www.bing.com/ck/a?u=a1aHR0cHM6Ly93d3cuYmluZy5jb20vY2svYT91PWExYUhSMGNITTZMeTlsTG1OdmJR''
       = ''https://www.bing.com/ck/a?u=a1aHR0cHM6Ly9lLmNvbQ''
   \<and> cleanBingUrl ''https://www.bing.com/ck/a?u=a1aHR0cHM6Ly9lLmNvbQ'' = ''https://e.com''
   \<and> cleanDuckDuckGoUrl (cleanDuckDuckGoUrl ''//duckduckgo.com/l/?uddg=%2F%2Fexample.com'')
     \<noteq> cleanDuckDuckGoUrl ''//duckduckgo.com/l/?uddg=%2F%2Fexample.com''
   \<and> cleanDuckDuckGoUrl ''//duckduckgo.com/l/?uddg=%2F%2Fexample.com'' = ''//example.com''
   \<and> cleanDuckDuckGoUrl ''//example.com'' = ''https://example.com''"
  by code_simp

text \<open>
  Claim C9, amended. Each normalizer is idempotent at every address whose normalized form is
  not again a wrapped form of its engine: not a \<open>/url?\<close> redirect and not protocol-relative
  for Google, not a \<open>bing.com/ck/a\<close> redirect and not protocol-relative for Bing, not
  protocol-relative (which covers \<open>//duckduckgo.com/l/\<close>) for DuckDuckGo.
\<close>

theorem normalize_idempotent_unless_rewrapped:
  "(\<not> startsWith (cleanGoogleUrl g) ''/url?'' \<and> \<not> startsWith (cleanGoogleUrl g) ''//''
      \<longrightarrow> cleanGoogleUrl (cleanGoogleUrl g) = cleanGoogleUrl g)
   \<and> (\<not> str_includes (cleanBingUrl b) ''bing.com/ck/a?'' \<and> \<not> str_includes (cleanBingUrl b) ''bing.com/ck/a&''
        \<and> \<not> startsWith (cleanBingUrl b) ''//''
      \<longrightarrow> cleanBingUrl (cleanBingUrl b) = cleanBingUrl b)
   \<and> (\<not> startsWith (cleanDuckDuckGoUrl d) ''//''
      \<longrightarrow> cleanDuckDuckGoUrl (cleanDuckDuckGoUrl d) = cleanDuckDuckGoUrl d)"
  using cleanGoogleUrl_plain cleanBingUrl_plain cleanDuckDuckGoUrl_plain by blast

theorem normalize_idempotent_unless_rewrapped_witness:
  "cleanGoogleUrl ''/url?q=https://example.com/a%3Fb&sa=U'' = ''https://example.com/a?b''
   \<and> cleanGoogleUrl (cleanGoogleUrl ''/url?q=https://example.com/a%3Fb&sa=U'')
       = cleanGoogleUrl ''/url?q=https://example.com/a%3Fb&sa=U''
   \<and> cleanBingUrl ''https://www.bing.com/ck/a?!&&p=abc&u=a1aHR0cHM6Ly9lLmNvbQ&ntb=1'' = ''https://e.com''
   \<and> cleanBingUrl (cleanBingUrl ''https://www.bing.com/ck/a?!&&p=abc&u=a1aHR0cHM6Ly9lLmNvbQ&ntb=1'')
       = cleanBingUrl ''https://www.bing.com/ck/a?!&&p=abc&u=a1aHR0cHM6Ly9lLmNvbQ&ntb=1''
   \<and> cleanDuckDuckGoUrl ''//duckduckgo.com/l/?uddg=https%3A%2F%2Fexample.com%2Fa&rut=abc''
       = ''https://example.com/a''
   \<and> cleanDuckDuckGoUrl (cleanDuckDuckGoUrl ''//duckduckgo.com/l/?uddg=https%3A%2F%2Fexample.com%2Fa&rut=abc'')
       = cleanDuckDuckGoUrl ''//duckduckgo.com/l/?uddg=https%3A%2F%2Fexample.com%2Fa&rut=abc''"
proof -
  let ?g = "''/url?q=https://example.com/a%3Fb&sa=U''"
  let ?b = "''https://www.bing.com/ck/a?!&&p=abc&u=a1aHR0cHM6Ly9lLmNvbQ&ntb=1''"
  let ?d = "''//duckduckgo.com/l/?uddg=https%3A%2F%2Fexample.com%2Fa&rut=abc''"
  have g: "cleanGoogleUrl ?g = ''https://example.com/a?b''" by code_simp
  have b: "cleanBingUrl ?b = ''https://e.com''" by code_simp
  have d: "cleanDuckDuckGoUrl ?d = ''https://example.com/a''" by code_simp
  have hg: "\<not> startsWith (cleanGoogleUrl ?g) ''/url?'' \<and> \<not> startsWith (cleanGoogleUrl ?g) ''//''"
    unfolding g by simp
  have hb: "\<not> str_includes (cleanBingUrl ?b) ''bing.com/ck/a?'' \<and> \<not> str_includes (cleanBingUrl ?b) ''bing.com/ck/a&''
        \<and> \<not> startsWith (cleanBingUrl ?b) ''//''"
    unfolding b by simp
  have hd: "\<not> startsWith (cleanDuckDuckGoUrl ?d) ''//''"
    unfolding d by simp
  from normalize_idempotent_unless_rewrapped [of ?g ?b ?d] hg hb hd
  have "cleanGoogleUrl (cleanGoogleUrl ?g) = cleanGoogleUrl ?g
      \<and> cleanBingUrl (cleanBingUrl ?b) = cleanBingUrl ?b
      \<and> cleanDuckDuckGoUrl (cleanDuckDuckGoUrl ?d) = cleanDuckDuckGoUrl ?d"
    by blast
  with g b d show ?thesis by blast
qed

section \<open>Properties of the parsers\<close>

lemma startsWith_Cons:
  "startsWith s (p # ps) = (case s of [] \<Rightarrow> False | c # cs \<Rightarrow> c = p \<and> startsWith cs ps)"
  by (cases s) auto

lemma startsWith_same_prefix: "startsWith (p @ s) (p @ q) = startsWith s q"
  by (induction p) auto

lemma web_href_not_google_redirect: "web_href h \<Longrightarrow> \<not> startsWith h ''/url?''"
  by (auto simp: web_href_def startsWith_Cons split: list.splits)

lemma protocol_relative_scheme: "startsWith h ''//'' \<Longrightarrow> scheme_qualified (''https:'' @ h)"
  using startsWith_same_prefix[of "''https:''" h "''//''"] by (simp add: scheme_qualified_def)

lemma web_href_cases: "web_href h \<Longrightarrow> scheme_qualified h \<or> startsWith h ''//''"
  by (auto simp: web_href_def scheme_qualified_def)

lemma cleanGoogleUrl_scheme: "web_href h \<Longrightarrow> scheme_qualified (cleanGoogleUrl h)"
  using web_href_not_google_redirect[of h] web_href_cases[of h] protocol_relative_scheme[of h]
  by (auto simp: cleanGoogleUrl_def)

lemma cleanBraveUrl_scheme: "web_href h \<Longrightarrow> scheme_qualified (cleanBraveUrl h)"
  using web_href_cases[of h] protocol_relative_scheme[of h]
  by (auto simp: cleanBraveUrl_def)

lemma bing_redirect_target_scheme: "bing_redirect_target u = Some d \<Longrightarrow> scheme_qualified d"
  by (auto simp: bing_redirect_target_def scheme_qualified_def Let_def split: option.splits if_splits)

lemma cleanBingUrl_scheme: "web_href h \<Longrightarrow> scheme_qualified (cleanBingUrl h)"
  using web_href_cases[of h] protocol_relative_scheme[of h] bing_redirect_target_scheme[of h]
  by (auto simp: cleanBingUrl_def split: option.splits)

lemma cleanDuckDuckGoUrl_scheme:
  "web_href h \<Longrightarrow> \<not> startsWith h ''//duckduckgo.com/l/'' \<Longrightarrow> scheme_qualified (cleanDuckDuckGoUrl h)"
  using web_href_cases[of h] protocol_relative_scheme[of h]
  by (auto simp: cleanDuckDuckGoUrl_def)

lemma loop_until_invariant:
  assumes "P s" and "\<And>x s. P s \<Longrightarrow> P (body x s)"
  shows "P (loop_until stop body xs s)"
  using assms(1) by (induction xs arbitrary: s) (auto intro: assms(2))

text \<open>A property of every result pushed, carried through the loops of each parser.\<close>

lemma google_card_all:
  assumes "\<forall>r \<in> set (fst st). Q r"
    and "\<And>t u d. u \<noteq> [] \<Longrightarrow> isValidSearchUrl u \<Longrightarrow>
           Q \<lparr>title = t, url = cleanGoogleUrl u, description = d, fullContent = [],
              contentPreview = [], wordCount = 0, timestamp = ts, fetchStatus = Success,
              error = None\<rparr>"
  shows "\<forall>r \<in> set (fst (google_card ts e st)). Q r"
  using assms by (auto simp: google_card_def Let_def split: prod.splits)

lemma google_h3_all:
  assumes "\<forall>r \<in> set (fst st). Q r"
    and "\<And>t u d. u \<noteq> [] \<Longrightarrow> isValidSearchUrl u \<Longrightarrow>
           Q \<lparr>title = t, url = cleanGoogleUrl u, description = d, fullContent = [],
              contentPreview = [], wordCount = 0, timestamp = ts, fetchStatus = Success,
              error = None\<rparr>"
  shows "\<forall>r \<in> set (fst (google_h3 ts e st)). Q r"
proof -
  have "isValidSearchUrl u \<Longrightarrow> u \<noteq> []" for u
    by (auto simp: isValidSearchUrl_def)
  with assms show ?thesis
    by (auto simp: google_h3_def Let_def)
qed

lemma parseSearchResults_all:
  assumes "\<And>t u d. u \<noteq> [] \<Longrightarrow> isValidSearchUrl u \<Longrightarrow>
           Q \<lparr>title = t, url = cleanGoogleUrl u, description = d, fullContent = [],
              contentPreview = [], wordCount = 0, timestamp = ts, fetchStatus = Success,
              error = None\<rparr>"
  shows "\<forall>r \<in> set (parseSearchResults doc n ts). Q r"
proof -
  let ?P = "\<lambda>st :: parse_state. \<forall>r \<in> set (fst st). Q r"
  have card: "?P (loop_until (full n) (google_card ts) es st)" if "?P st" for es st
    using that by (rule loop_until_invariant) (rule google_card_all, assumption, rule assms)
  have h3: "?P (loop_until (full n) (google_h3 ts) es st)" if "?P st" for es st
    using that by (rule loop_until_invariant) (rule google_h3_all, assumption, rule assms)
  have sel: "?P (loop_until snd (\<lambda>selector. loop_until (full n) (google_card ts) (doc selector)) sels ([], False))"
    for sels
    by (rule loop_until_invariant) (simp, rule card)
  let ?st = "loop_until snd (\<lambda>selector. loop_until (full n) (google_card ts) (doc selector))
                 [''div.g'', ''div[data-sokoban-container]'', ''.tF2Cxc'', ''.rc'', ''[data-ved]'',
                  ''div[jscontroller]'']
                 ([], False)"
  have a: "?P ?st" by (rule sel)
  then have b: "?P (loop_until (full n) (google_h3 ts) (doc ''h3'') ?st)" by (rule h3)
  have "parseSearchResults doc n ts = fst ?st
      \<or> parseSearchResults doc n ts = fst (loop_until (full n) (google_h3 ts) (doc ''h3'') ?st)"
    unfolding parseSearchResults_def Let_def by (simp del: loop_until.simps)
  with a b show ?thesis by metis
qed

lemma brave_card_all:
  assumes "\<forall>r \<in> set (fst st). Q r"
    and "\<And>t u d. u \<noteq> [] \<Longrightarrow> isValidSearchUrl u \<Longrightarrow>
           Q \<lparr>title = t, url = cleanBraveUrl u, description = d, fullContent = [],
              contentPreview = [], wordCount = 0, timestamp = ts, fetchStatus = Success,
              error = None\<rparr>"
  shows "\<forall>r \<in> set (fst (brave_card ts e st)). Q r"
  using assms by (auto simp: brave_card_def Let_def split: prod.splits)

lemma parseBraveResults_all:
  assumes "\<And>t u d. u \<noteq> [] \<Longrightarrow> isValidSearchUrl u \<Longrightarrow>
           Q \<lparr>title = t, url = cleanBraveUrl u, description = d, fullContent = [],
              contentPreview = [], wordCount = 0, timestamp = ts, fetchStatus = Success,
              error = None\<rparr>"
  shows "\<forall>r \<in> set (parseBraveResults doc n ts). Q r"
proof -
  let ?P = "\<lambda>st :: parse_state. \<forall>r \<in> set (fst st). Q r"
  have card: "?P (loop_until (full n) (brave_card ts) es st)" if "?P st" for es st
    using that by (rule loop_until_invariant) (rule brave_card_all, assumption, rule assms)
  have "?P (loop_until (\<lambda>st. snd st \<and> full n st)
        (\<lambda>selector. loop_until (full n) (brave_card ts) (doc selector)) sels ([], False))" for sels
    by (rule loop_until_invariant) (simp, rule card)
  then show ?thesis
    unfolding parseBraveResults_def by blast
qed

lemma bing_card_all:
  assumes "\<forall>r \<in> set (fst st). Q r"
    and "\<And>t u d. u \<noteq> [] \<Longrightarrow> isValidSearchUrl u \<Longrightarrow>
           Q \<lparr>title = t, url = cleanBingUrl u, description = d, fullContent = [],
              contentPreview = [], wordCount = 0, timestamp = ts, fetchStatus = Success,
              error = None\<rparr>"
  shows "\<forall>r \<in> set (fst (bing_card ts e st)). Q r"
  using assms by (auto simp: bing_card_def Let_def split: prod.splits)

lemma parseBingResults_all:
  assumes "\<And>t u d. u \<noteq> [] \<Longrightarrow> isValidSearchUrl u \<Longrightarrow>
           Q \<lparr>title = t, url = cleanBingUrl u, description = d, fullContent = [],
              contentPreview = [], wordCount = 0, timestamp = ts, fetchStatus = Success,
              error = None\<rparr>"
  shows "\<forall>r \<in> set (parseBingResults doc n ts). Q r"
proof -
  let ?P = "\<lambda>st :: parse_state. \<forall>r \<in> set (fst st). Q r"
  have card: "?P (loop_until (full n) (bing_card ts) es st)" if "?P st" for es st
    using that by (rule loop_until_invariant) (rule bing_card_all, assumption, rule assms)
  have "?P (loop_until (\<lambda>st. snd st \<and> full n st)
        (\<lambda>selector. loop_until (full n) (bing_card ts) (doc selector)) sels ([], False))" for sels
    by (rule loop_until_invariant) (simp, rule card)
  then show ?thesis
    unfolding parseBingResults_def by blast
qed

lemma duckduckgo_card_all:
  assumes "\<forall>r \<in> set (fst st). Q r"
    and "\<And>t u d. u \<noteq> [] \<Longrightarrow>
           Q \<lparr>title = t, url = cleanDuckDuckGoUrl u, description = d, fullContent = [],
              contentPreview = [], wordCount = 0, timestamp = ts, fetchStatus = Success,
              error = None\<rparr>"
  shows "\<forall>r \<in> set (fst (duckduckgo_card ts e st)). Q r"
  using assms
  by (auto simp: duckduckgo_card_def Let_def truthy_def or_empty_def split: option.splits)

lemma parseDuckDuckGoResults_all:
  assumes "\<And>t u d. u \<noteq> [] \<Longrightarrow>
           Q \<lparr>title = t, url = cleanDuckDuckGoUrl u, description = d, fullContent = [],
              contentPreview = [], wordCount = 0, timestamp = ts, fetchStatus = Success,
              error = None\<rparr>"
  shows "\<forall>r \<in> set (parseDuckDuckGoResults doc n ts). Q r"
proof -
  let ?P = "\<lambda>st :: parse_state. \<forall>r \<in> set (fst st). Q r"
  have "?P (loop_until (full n) (duckduckgo_card ts) es ([], False))" for es
    by (rule loop_until_invariant) (simp, rule duckduckgo_card_all, assumption, rule assms)
  then show ?thesis
    unfolding parseDuckDuckGoResults_def by blast
qed

text \<open>
  Claim C10. Every result that any of the four parsers returns, for every document and every
  limit, has an empty \<open>fullContent\<close>, an empty \<open>contentPreview\<close>, \<open>wordCount\<close> 0 and
  \<open>fetchStatus\<close> \<open>'success'\<close>, although nothing has been fetched for it.
\<close>

theorem parsed_results_not_yet_fetched:
  assumes "r \<in> set (parseSearchResults doc n ts) \<union> set (parseBraveResults doc n ts)
             \<union> set (parseBingResults doc n ts) \<union> set (parseDuckDuckGoResults doc n ts)"
  shows "fullContent r = [] \<and> contentPreview r = [] \<and> wordCount r = 0 \<and> fetchStatus r = Success"
proof -
  let ?Q = "\<lambda>r. fullContent r = [] \<and> contentPreview r = [] \<and> wordCount r = 0 \<and> fetchStatus r = Success"
  have "\<forall>r \<in> set (parseSearchResults doc n ts). ?Q r"
    by (rule parseSearchResults_all) simp
  moreover have "\<forall>r \<in> set (parseBraveResults doc n ts). ?Q r"
    by (rule parseBraveResults_all) simp
  moreover have "\<forall>r \<in> set (parseBingResults doc n ts). ?Q r"
    by (rule parseBingResults_all) simp
  moreover have "\<forall>r \<in> set (parseDuckDuckGoResults doc n ts). ?Q r"
    by (rule parseDuckDuckGoResults_all) simp
  ultimately show ?thesis using assms by blast
qed

theorem parsed_results_not_yet_fetched_witness:
  "parseBingResults bing_page 5 ''2025-01-01T00:00:00.000Z'' \<noteq> []
   \<and> title (hd (parseBingResults bing_page 5 ''2025-01-01T00:00:00.000Z'')) = ''Example''
   \<and> fullContent (hd (parseBingResults bing_page 5 ''2025-01-01T00:00:00.000Z'')) = []
   \<and> contentPreview (hd (parseBingResults bing_page 5 ''2025-01-01T00:00:00.000Z'')) = []
   \<and> wordCount (hd (parseBingResults bing_page 5 ''2025-01-01T00:00:00.000Z'')) = 0
   \<and> fetchStatus (hd (parseBingResults bing_page 5 ''2025-01-01T00:00:00.000Z'')) = Success"
proof -
  let ?rs = "parseBingResults bing_page 5 ''2025-01-01T00:00:00.000Z''"
  have ne: "?rs \<noteq> []" by code_simp
  have t: "title (hd ?rs) = ''Example''" by code_simp
  from ne have "hd ?rs \<in> set ?rs" by simp
  then have "hd ?rs \<in> set (parseSearchResults bing_page 5 ''2025-01-01T00:00:00.000Z'')
      \<union> set (parseBraveResults bing_page 5 ''2025-01-01T00:00:00.000Z'')
      \<union> set ?rs \<union> set (parseDuckDuckGoResults bing_page 5 ''2025-01-01T00:00:00.000Z'')"
    by blast
  from parsed_results_not_yet_fetched [OF this] ne t show ?thesis by blast
qed

text \<open>
  Where a result comes from: the loops of each parser, with the card that each result was read
  from.
\<close>

lemma loop_until_invariant_mem:
  assumes "P s" and "\<And>x s. x \<in> set xs \<Longrightarrow> P s \<Longrightarrow> P (body x s)"
  shows "P (loop_until stop body xs s)"
  using assms
proof (induction xs arbitrary: s)
  case Nil
  then show ?case by simp
next
  case (Cons x xs)
  have "P (body x s)" using Cons.prems by simp
  then have "P (loop_until stop body xs (body x s))"
    using Cons.IH Cons.prems(2) by simp
  with Cons.prems(1) show ?case by simp
qed

lemma google_card_link:
  assumes "\<forall>r \<in> set (fst st). Q r"
    and "\<And>t u d. t \<noteq> [] \<Longrightarrow> u \<noteq> [] \<Longrightarrow> isValidSearchUrl u \<Longrightarrow> google_title_url e = (t, u) \<Longrightarrow>
           Q \<lparr>title = t, url = cleanGoogleUrl u, description = d, fullContent = [],
              contentPreview = [], wordCount = 0, timestamp = ts, fetchStatus = Success,
              error = None\<rparr>"
  shows "\<forall>r \<in> set (fst (google_card ts e st)). Q r"
  using assms by (auto simp: google_card_def Let_def split: prod.splits)

lemma google_h3_link:
  assumes "\<forall>r \<in> set (fst st). Q r"
    and "\<And>u. el_closest e ''a'' \<noteq> [] \<Longrightarrow> trim (el_text e) \<noteq> [] \<Longrightarrow>
           u = or_empty (sel_href (el_closest e ''a'')) \<Longrightarrow> u \<noteq> [] \<Longrightarrow> isValidSearchUrl u \<Longrightarrow>
           Q \<lparr>title = trim (el_text e), url = cleanGoogleUrl u, description = no_description,
              fullContent = [], contentPreview = [], wordCount = 0, timestamp = ts,
              fetchStatus = Success, error = None\<rparr>"
  shows "\<forall>r \<in> set (fst (google_h3 ts e st)). Q r"
proof -
  have "isValidSearchUrl u \<Longrightarrow> u \<noteq> []" for u
    by (auto simp: isValidSearchUrl_def)
  with assms show ?thesis
    by (auto simp: google_h3_def Let_def)
qed

lemma parseSearchResults_link:
  "\<forall>r \<in> set (parseSearchResults doc n ts).
     \<exists>h. (title r, h) \<in> set (google_links doc) \<and> title r \<noteq> [] \<and> h \<noteq> [] \<and> isValidSearchUrl h
        \<and> url r = cleanGoogleUrl h"
proof -
  let ?Q = "\<lambda>r. \<exists>h. (title r, h) \<in> set (google_links doc) \<and> title r \<noteq> [] \<and> h \<noteq> []
        \<and> isValidSearchUrl h \<and> url r = cleanGoogleUrl h"
  let ?P = "\<lambda>st :: parse_state. \<forall>r \<in> set (fst st). ?Q r"
  let ?sels = "[''div.g'', ''div[data-sokoban-container]'', ''.tF2Cxc'', ''.rc'', ''[data-ved]'',
                  ''div[jscontroller]'']"
  have card1: "?P (google_card ts e st)" if "?P st" and "e \<in> set (doc sel)" and "sel \<in> set ?sels"
    for e st sel
  proof (rule google_card_link[OF that(1)])
    fix t u d
    assume a: "t \<noteq> []" "u \<noteq> []" "isValidSearchUrl u" "google_title_url e = (t, u)"
    have "(t, u) \<in> set (map google_title_url (doc sel))"
      using that(2) a(4) by force
    then have "(t, u) \<in> set (google_links doc)"
      using that(3) unfolding google_links_def by auto
    with a show "?Q \<lparr>title = t, url = cleanGoogleUrl u, description = d, fullContent = [],
              contentPreview = [], wordCount = 0, timestamp = ts, fetchStatus = Success,
              error = None\<rparr>"
      by auto
  qed
  have card: "?P (loop_until (full n) (google_card ts) (doc sel) st)"
    if "?P st" and "sel \<in> set ?sels" for st sel
    using that(1)
  proof (rule loop_until_invariant_mem)
    fix x s assume "x \<in> set (doc sel)" "?P s"
    then show "?P (google_card ts x s)" using card1 that(2) by blast
  qed
  let ?st = "loop_until snd (\<lambda>selector. loop_until (full n) (google_card ts) (doc selector))
                 ?sels ([], False)"
  have a: "?P ?st"
  proof (rule loop_until_invariant_mem)
    show "?P ([], False)" by simp
  next
    fix x s assume "x \<in> set ?sels" "?P s"
    then show "?P (loop_until (full n) (google_card ts) (doc x) s)" using card by blast
  qed
  have h31: "?P (google_h3 ts e st)" if "?P st" and "e \<in> set (doc ''h3'')" for e st
  proof (rule google_h3_link[OF that(1)])
    fix u
    assume b: "el_closest e ''a'' \<noteq> []" "trim (el_text e) \<noteq> []"
      "u = or_empty (sel_href (el_closest e ''a''))" "u \<noteq> []" "isValidSearchUrl u"
    have "(trim (el_text e), u) \<in> set (google_links doc)"
      using that(2) b(1,3) unfolding google_links_def by auto
    with b show "?Q \<lparr>title = trim (el_text e), url = cleanGoogleUrl u, description = no_description,
              fullContent = [], contentPreview = [], wordCount = 0, timestamp = ts,
              fetchStatus = Success, error = None\<rparr>"
      by auto
  qed
  have b: "?P (loop_until (full n) (google_h3 ts) (doc ''h3'') ?st)"
    using a
  proof (rule loop_until_invariant_mem)
    fix x s assume "x \<in> set (doc ''h3'')" "?P s"
    then show "?P (google_h3 ts x s)" using h31 by blast
  qed
  have "parseSearchResults doc n ts = fst ?st
      \<or> parseSearchResults doc n ts = fst (loop_until (full n) (google_h3 ts) (doc ''h3'') ?st)"
    unfolding parseSearchResults_def Let_def by (simp del: loop_until.simps)
  with a b show ?thesis by metis
qed


lemma brave_card_link:
  assumes "\<forall>r \<in> set (fst st). Q r"
    and "\<And>t0 t u d. t \<noteq> [] \<Longrightarrow> u \<noteq> [] \<Longrightarrow> isValidSearchUrl u \<Longrightarrow>
           brave_title_url e [''.title a'', ''h2 a'', ''.result-title a'', ''a[href*=\"://\"]'',
             ''.snippet-title a''] ([], []) = (t0, u) \<Longrightarrow>
           t = (if t0 = [] then first_text_line e else t0) \<Longrightarrow>
           Q \<lparr>title = t, url = cleanBraveUrl u, description = d, fullContent = [],
              contentPreview = [], wordCount = 0, timestamp = ts, fetchStatus = Success,
              error = None\<rparr>"
  shows "\<forall>r \<in> set (fst (brave_card ts e st)). Q r"
  using assms by (auto simp: brave_card_def Let_def split: prod.splits)

lemma parseBraveResults_link:
  "\<forall>r \<in> set (parseBraveResults doc n ts).
     \<exists>h. (title r, h) \<in> set (brave_links doc) \<and> title r \<noteq> [] \<and> h \<noteq> [] \<and> isValidSearchUrl h
        \<and> url r = cleanBraveUrl h"
proof -
  let ?Q = "\<lambda>r. \<exists>h. (title r, h) \<in> set (brave_links doc) \<and> title r \<noteq> [] \<and> h \<noteq> []
        \<and> isValidSearchUrl h \<and> url r = cleanBraveUrl h"
  let ?P = "\<lambda>st :: parse_state. \<forall>r \<in> set (fst st). ?Q r"
  let ?sels = "[''[data-type=\"web\"]'', ''.result'', ''.fdb'']"
  let ?link = "\<lambda>element.
               (case brave_title_url element
                       [''.title a'', ''h2 a'', ''.result-title a'', ''a[href*=\"://\"]'',
                        ''.snippet-title a'']
                       ([], []) of
                  (t0, u) \<Rightarrow> (if t0 = [] then first_text_line element else t0, u))"
  have card1: "?P (brave_card ts e st)" if "?P st" and "e \<in> set (doc sel)" and "sel \<in> set ?sels"
    for e st sel
  proof (rule brave_card_link[OF that(1)])
    fix t0 t u d
    assume a: "t \<noteq> []" "u \<noteq> []" "isValidSearchUrl u"
      "brave_title_url e [''.title a'', ''h2 a'', ''.result-title a'', ''a[href*=\"://\"]'',
             ''.snippet-title a''] ([], []) = (t0, u)"
      "t = (if t0 = [] then first_text_line e else t0)"
    have "?link e = (t, u)" using a(4,5) by simp
    then have "(t, u) \<in> set (map ?link (doc sel))"
      using that(2) by force
    then have "(t, u) \<in> set (brave_links doc)"
      using that(3) unfolding brave_links_def by auto
    with a show "?Q \<lparr>title = t, url = cleanBraveUrl u, description = d, fullContent = [],
              contentPreview = [], wordCount = 0, timestamp = ts, fetchStatus = Success,
              error = None\<rparr>"
      by auto
  qed
  have card: "?P (loop_until (full n) (brave_card ts) (doc sel) st)"
    if "?P st" and "sel \<in> set ?sels" for st sel
    using that(1)
  proof (rule loop_until_invariant_mem)
    fix x s assume "x \<in> set (doc sel)" "?P s"
    then show "?P (brave_card ts x s)" using card1 that(2) by blast
  qed
  have "?P (loop_until (\<lambda>st. snd st \<and> full n st)
        (\<lambda>selector. loop_until (full n) (brave_card ts) (doc selector)) ?sels ([], False))"
  proof (rule loop_until_invariant_mem)
    show "?P ([], False)" by simp
  next
    fix x s assume "x \<in> set ?sels" "?P s"
    then show "?P (loop_until (full n) (brave_card ts) (doc x) s)" using card by blast
  qed
  then show ?thesis
    unfolding parseBraveResults_def by blast
qed

lemma bing_card_link:
  assumes "\<forall>r \<in> set (fst st). Q r"
    and "\<And>t u d. t \<noteq> [] \<Longrightarrow> u \<noteq> [] \<Longrightarrow> isValidSearchUrl u \<Longrightarrow> bing_title_url e = (t, u) \<Longrightarrow>
           Q \<lparr>title = t, url = cleanBingUrl u, description = d, fullContent = [],
              contentPreview = [], wordCount = 0, timestamp = ts, fetchStatus = Success,
              error = None\<rparr>"
  shows "\<forall>r \<in> set (fst (bing_card ts e st)). Q r"
  using assms by (auto simp: bing_card_def Let_def split: prod.splits)

lemma parseBingResults_link:
  "\<forall>r \<in> set (parseBingResults doc n ts).
     \<exists>h. (title r, h) \<in> set (bing_links doc) \<and> title r \<noteq> [] \<and> h \<noteq> [] \<and> isValidSearchUrl h
        \<and> url r = cleanBingUrl h"
proof -
  let ?Q = "\<lambda>r. \<exists>h. (title r, h) \<in> set (bing_links doc) \<and> title r \<noteq> [] \<and> h \<noteq> []
        \<and> isValidSearchUrl h \<and> url r = cleanBingUrl h"
  let ?P = "\<lambda>st :: parse_state. \<forall>r \<in> set (fst st). ?Q r"
  let ?sels = "[''.b_algo'', ''.b_result'', ''.b_card'']"
  have card1: "?P (bing_card ts e st)" if "?P st" and "e \<in> set (doc sel)" and "sel \<in> set ?sels"
    for e st sel
  proof (rule bing_card_link[OF that(1)])
    fix t u d
    assume a: "t \<noteq> []" "u \<noteq> []" "isValidSearchUrl u" "bing_title_url e = (t, u)"
    have "(t, u) \<in> set (map bing_title_url (doc sel))"
      using that(2) a(4) by force
    then have "(t, u) \<in> set (bing_links doc)"
      using that(3) unfolding bing_links_def by auto
    with a show "?Q \<lparr>title = t, url = cleanBingUrl u, description = d, fullContent = [],
              contentPreview = [], wordCount = 0, timestamp = ts, fetchStatus = Success,
              error = None\<rparr>"
      by auto
  qed
  have card: "?P (loop_until (full n) (bing_card ts) (doc sel) st)"
    if "?P st" and "sel \<in> set ?sels" for st sel
    using that(1)
  proof (rule loop_until_invariant_mem)
    fix x s assume "x \<in> set (doc sel)" "?P s"
    then show "?P (bing_card ts x s)" using card1 that(2) by blast
  qed
  have "?P (loop_until (\<lambda>st. snd st \<and> full n st)
        (\<lambda>selector. loop_until (full n) (bing_card ts) (doc selector)) ?sels ([], False))"
  proof (rule loop_until_invariant_mem)
    show "?P ([], False)" by simp
  next
    fix x s assume "x \<in> set ?sels" "?P s"
    then show "?P (loop_until (full n) (bing_card ts) (doc x) s)" using card by blast
  qed
  then show ?thesis
    unfolding parseBingResults_def by blast
qed

lemma duckduckgo_card_link:
  assumes "\<forall>r \<in> set (fst st). Q r"
    and "\<And>t u d. t \<noteq> [] \<Longrightarrow> u \<noteq> [] \<Longrightarrow>
           t = trim (sel_text (el_find e ''.result__title a'')) \<Longrightarrow>
           u = or_empty (sel_href (el_find e ''.result__title a'')) \<Longrightarrow>
           Q \<lparr>title = t, url = cleanDuckDuckGoUrl u, description = d, fullContent = [],
              contentPreview = [], wordCount = 0, timestamp = ts, fetchStatus = Success,
              error = None\<rparr>"
  shows "\<forall>r \<in> set (fst (duckduckgo_card ts e st)). Q r"
  using assms
  by (auto simp: duckduckgo_card_def Let_def truthy_def or_empty_def split: option.splits)

lemma parseDuckDuckGoResults_link:
  "\<forall>r \<in> set (parseDuckDuckGoResults doc n ts).
     \<exists>h. (title r, h) \<in> set (duckduckgo_links doc) \<and> title r \<noteq> [] \<and> h \<noteq> []
        \<and> url r = cleanDuckDuckGoUrl h"
proof -
  let ?Q = "\<lambda>r. \<exists>h. (title r, h) \<in> set (duckduckgo_links doc) \<and> title r \<noteq> [] \<and> h \<noteq> []
        \<and> url r = cleanDuckDuckGoUrl h"
  let ?P = "\<lambda>st :: parse_state. \<forall>r \<in> set (fst st). ?Q r"
  have card1: "?P (duckduckgo_card ts e st)" if "?P st" and "e \<in> set (doc ''.result'')" for e st
  proof (rule duckduckgo_card_link[OF that(1)])
    fix t u d
    assume a: "t \<noteq> []" "u \<noteq> []" "t = trim (sel_text (el_find e ''.result__title a''))"
      "u = or_empty (sel_href (el_find e ''.result__title a''))"
    have "(t, u) \<in> set (duckduckgo_links doc)"
      using that(2) a(3,4) unfolding duckduckgo_links_def by auto
    with a show "?Q \<lparr>title = t, url = cleanDuckDuckGoUrl u, description = d, fullContent = [],
              contentPreview = [], wordCount = 0, timestamp = ts, fetchStatus = Success,
              error = None\<rparr>"
      by auto
  qed
  have "?P (loop_until (full n) (duckduckgo_card ts) (doc ''.result'') ([], False))"
  proof (rule loop_until_invariant_mem)
    show "?P ([], False)" by simp
  next
    fix x s assume "x \<in> set (doc ''.result'')" "?P s"
    then show "?P (duckduckgo_card ts x s)" using card1 by blast
  qed
  then show ?thesis
    unfolding parseDuckDuckGoResults_def by blast
qed

lemma split_char_from_piece:
  assumes "sep \<notin> set a"
  shows "split_char_from sep cur (a @ sep # r) = (cur @ a) # split_char_from sep [] r"
    and "split_char_from sep cur a = [cur @ a]"
  using assms by (induction a arbitrary: cur) auto

lemma first_param:
  assumes "CHR ''&'' \<notin> set name" "CHR ''='' \<notin> set name" "CHR ''&'' \<notin> set v" "name \<noteq> []"
    and "\<not> startsWith name ''?''"
    and "rest = [] \<or> startsWith rest ''&''"
  shows "hd (URLSearchParams (name @ ''='' @ v @ rest)) = parse_pair (name @ ''='' @ v)"
    and "URLSearchParams (name @ ''='' @ v @ rest) \<noteq> []"
proof -
  let ?piece = "name @ ''='' @ v"
  have np: "CHR ''&'' \<notin> set ?piece" using assms by auto
  have ns: "\<not> startsWith (name @ ''='' @ v @ rest) ''?''"
    using assms(4,5) by (cases name) auto
  have "\<exists>more. split_char (CHR ''&'') (?piece @ rest) = ?piece # more"
  proof (cases "rest = []")
    case True
    then show ?thesis using split_char_from_piece(2)[OF np, of "[]"] by (simp add: split_char_def)
  next
    case False
    with assms(6) obtain r where "rest = CHR ''&'' # r" by (cases rest) auto
    then show ?thesis using split_char_from_piece(1)[OF np, of "[]" r] by (simp add: split_char_def)
  qed
  then obtain more where m: "split_char (CHR ''&'') (name @ ''='' @ v @ rest) = ?piece # more"
    by auto
  have "?piece \<noteq> []" by simp
  with m ns show "hd (URLSearchParams (name @ ''='' @ v @ rest)) = parse_pair (name @ ''='' @ v)"
    and "URLSearchParams (name @ ''='' @ v @ rest) \<noteq> []"
    by (simp_all add: URLSearchParams_def)
qed

text \<open>What the normalizers make of a redirect link whose target is its first parameter.\<close>

lemma form_decode_ascii_name:
  "form_decode ''q'' = ''q''" "form_decode ''uddg'' = ''uddg''"
  by code_simp+

lemma first_param_get:
  assumes "CHR ''&'' \<notin> set name" "CHR ''='' \<notin> set name" "CHR ''&'' \<notin> set v" "name \<noteq> []"
    and "\<not> startsWith name ''?''"
    and "rest = [] \<or> startsWith rest ''&''"
    and "form_decode name = name"
  shows "params_get (URLSearchParams (name @ ''='' @ v @ rest)) name = Some (form_decode v)"
proof -
  have tw: "takeWhile (\<lambda>c. c \<noteq> CHR ''='') (name @ ''='' @ v) = name"
    using assms(2) by (induction name) auto
  have dw: "dropWhile (\<lambda>c. c \<noteq> CHR ''='') (name @ ''='' @ v) = ''='' @ v"
    using assms(2) by (induction name) auto
  have pp: "parse_pair (name @ ''='' @ v) = (name, form_decode v)"
    unfolding parse_pair_def tw dw using assms(7) by simp
  from first_param[OF assms(1-6)] pp
  obtain more where "URLSearchParams (name @ ''='' @ v @ rest) = (name, form_decode v) # more"
    by (cases "URLSearchParams (name @ ''='' @ v @ rest)") auto
  then show ?thesis by (simp add: params_get_def)
qed

lemma cleanGoogleUrl_redirect:
  assumes "CHR ''&'' \<notin> set v" and "rest = [] \<or> startsWith rest ''&''" and "form_decode v \<noteq> []"
  shows "cleanGoogleUrl (''/url?q='' @ v @ rest) = form_decode v"
proof -
  have g: "params_get (URLSearchParams (''q'' @ ''='' @ v @ rest)) ''q'' = Some (form_decode v)"
    by (rule first_param_get) (use assms in \<open>simp_all add: form_decode_ascii_name\<close>)
  have d: "drop 5 (''/url?q='' @ v @ rest) = ''q'' @ ''='' @ v @ rest" by simp
  have s: "startsWith (''/url?q='' @ v @ rest) ''/url?''" by simp
  show ?thesis
    unfolding cleanGoogleUrl_def Let_def d using s g assms(3) by (simp add: truthy_def)
qed

lemma duckduckgo_redirect_param:
  assumes "CHR ''&'' \<notin> set v" and "rest = [] \<or> startsWith rest ''&''"
  shows "params_get (URLSearchParams (after_first_question_mark
           (''//duckduckgo.com/l/?uddg='' @ v @ rest))) ''uddg'' = Some (form_decode v)"
proof -
  have g: "params_get (URLSearchParams (''uddg'' @ ''='' @ v @ rest)) ''uddg'' = Some (form_decode v)"
    by (rule first_param_get) (use assms in \<open>simp_all add: form_decode_ascii_name\<close>)
  have d: "after_first_question_mark (''//duckduckgo.com/l/?uddg='' @ v @ rest)
            = ''uddg'' @ ''='' @ v @ rest"
    by (simp add: after_first_question_mark_def)
  show ?thesis unfolding d by (rule g)
qed

lemma cleanDuckDuckGoUrl_redirect:
  assumes "CHR ''&'' \<notin> set v" and "rest = [] \<or> startsWith rest ''&''" and "form_decode v \<noteq> []"
  shows "cleanDuckDuckGoUrl (''//duckduckgo.com/l/?uddg='' @ v @ rest)
          = (case decodeURIComponent (form_decode v) of
               Some t \<Rightarrow> t
             | None \<Rightarrow> ''https://duckduckgo.com/l/?uddg='' @ v @ rest)"
proof -
  have s: "startsWith (''//duckduckgo.com/l/?uddg='' @ v @ rest) ''//duckduckgo.com/l/''"
    and s2: "startsWith (''//duckduckgo.com/l/?uddg='' @ v @ rest) ''//''" by simp_all
  show ?thesis
    unfolding cleanDuckDuckGoUrl_def Let_def duckduckgo_redirect_param[OF assms(1,2)]
    using s s2 assms(3) by (simp add: truthy_def or_empty_def split: option.splits)
qed

lemma cleanBingUrl_redirect:
  assumes "str_includes h ''bing.com/ck/a?'' \<or> str_includes h ''bing.com/ck/a&''"
    and "bing_redirect_target h = Some t"
  shows "cleanBingUrl h = t"
  using assms by (simp add: cleanBingUrl_def)

text \<open>
  Claim C2, as stated, fails. \<open>isValidSearchUrl\<close> accepts every href that begins with \<open>/\<close>, and
  the normalizers return what they cannot unwrap: the Google parser yields the relative address
  \<open>/search?q=isabelle&tbm=isch\<close>, the Bing parser yields a \<open>bing.com/ck/a\<close> redirect.
\<close>

theorem parsed_url_not_normalized:
  "map url (parseSearchResults google_page 5 ''t'') = [''/search?q=isabelle&tbm=isch'']
   \<and> \<not> scheme_qualified ''/search?q=isabelle&tbm=isch''
   \<and> map url (parseBingResults bing_tracking_page 5 ''t'') = [''https://www.bing.com/ck/a?p=3f2a&ntb=1'']
   \<and> redirect_wrapper ''https://www.bing.com/ck/a?p=3f2a&ntb=1''"
  by code_simp

text \<open>
  Claim C2, amended. Every result of a parser comes from a card of the parsed document: the
  parser read the result's title, which is not empty, and a raw href, which is not empty and
  which \<open>isValidSearchUrl\<close> accepts in the Google, Brave and Bing parsers, from that card, and
  the result's address is the engine's normalizer applied to that href. The normalized href
  begins with \<open>http://\<close> or \<open>https://\<close> whenever the href begins with \<open>http://\<close>,
  \<open>https://\<close> or \<open>//\<close>; for DuckDuckGo whenever it does so and is not a
  \<open>//duckduckgo.com/l/\<close> redirect. Of a Google redirect \<open>/url?q=V\<close>, where \<open>V\<close> ends at the
  next \<open>&\<close>, it is \<open>V\<close> with \<open>+\<close> and percent escapes decoded, when that is not empty. Of a
  \<open>bing.com/ck/a\<close> redirect whose \<open>u=a1\<close> parameter decodes, by base64, to an address that
  begins with \<open>http://\<close> or \<open>https://\<close>, it is that address. Of a DuckDuckGo redirect
  \<open>//duckduckgo.com/l/?uddg=V\<close> whose \<open>V\<close>, decoded in the same way, is not empty, it is that
  text decoded once more by \<open>decodeURIComponent\<close>; when this second decoding throws, it is the
  redirect link itself behind \<open>https:\<close>.
\<close>

theorem parsed_url_is_normalized_href:
  "(r1 \<in> set (parseSearchResults doc1 n1 ts1) \<longrightarrow>
      (\<exists>h. (title r1, h) \<in> set (google_links doc1) \<and> title r1 \<noteq> [] \<and> h \<noteq> []
           \<and> isValidSearchUrl h \<and> url r1 = cleanGoogleUrl h))
   \<and> (r2 \<in> set (parseBraveResults doc2 n2 ts2) \<longrightarrow>
      (\<exists>h. (title r2, h) \<in> set (brave_links doc2) \<and> title r2 \<noteq> [] \<and> h \<noteq> []
           \<and> isValidSearchUrl h \<and> url r2 = cleanBraveUrl h))
   \<and> (r3 \<in> set (parseBingResults doc3 n3 ts3) \<longrightarrow>
      (\<exists>h. (title r3, h) \<in> set (bing_links doc3) \<and> title r3 \<noteq> [] \<and> h \<noteq> []
           \<and> isValidSearchUrl h \<and> url r3 = cleanBingUrl h))
   \<and> (r4 \<in> set (parseDuckDuckGoResults doc4 n4 ts4) \<longrightarrow>
      (\<exists>h. (title r4, h) \<in> set (duckduckgo_links doc4) \<and> title r4 \<noteq> [] \<and> h \<noteq> []
           \<and> url r4 = cleanDuckDuckGoUrl h))
   \<and> (web_href h5 \<longrightarrow>
        scheme_qualified (cleanGoogleUrl h5) \<and> scheme_qualified (cleanBraveUrl h5)
        \<and> scheme_qualified (cleanBingUrl h5))
   \<and> (web_href h6 \<and> \<not> startsWith h6 ''//duckduckgo.com/l/'' \<longrightarrow>
        scheme_qualified (cleanDuckDuckGoUrl h6))
   \<and> (CHR ''&'' \<notin> set v7 \<and> (rest7 = [] \<or> startsWith rest7 ''&'') \<and> form_decode v7 \<noteq> [] \<longrightarrow>
        cleanGoogleUrl (''/url?q='' @ v7 @ rest7) = form_decode v7)
   \<and> ((str_includes h8 ''bing.com/ck/a?'' \<or> str_includes h8 ''bing.com/ck/a&'')
        \<and> bing_redirect_target h8 = Some t8 \<longrightarrow>
        cleanBingUrl h8 = t8 \<and> scheme_qualified t8)
   \<and> (CHR ''&'' \<notin> set v9 \<and> (rest9 = [] \<or> startsWith rest9 ''&'') \<and> form_decode v9 \<noteq> []
        \<and> decodeURIComponent (form_decode v9) = Some t9 \<longrightarrow>
        cleanDuckDuckGoUrl (''//duckduckgo.com/l/?uddg='' @ v9 @ rest9) = t9)
   \<and> (CHR ''&'' \<notin> set v10 \<and> (rest10 = [] \<or> startsWith rest10 ''&'') \<and> form_decode v10 \<noteq> []
        \<and> decodeURIComponent (form_decode v10) = None \<longrightarrow>
        cleanDuckDuckGoUrl (''//duckduckgo.com/l/?uddg='' @ v10 @ rest10)
          = ''https://duckduckgo.com/l/?uddg='' @ v10 @ rest10)"
proof -
  have c1: "r1 \<in> set (parseSearchResults doc1 n1 ts1) \<longrightarrow>
      (\<exists>h. (title r1, h) \<in> set (google_links doc1) \<and> title r1 \<noteq> [] \<and> h \<noteq> []
           \<and> isValidSearchUrl h \<and> url r1 = cleanGoogleUrl h)"
    using parseSearchResults_link[of doc1 n1 ts1] by blast
  have c2: "r2 \<in> set (parseBraveResults doc2 n2 ts2) \<longrightarrow>
      (\<exists>h. (title r2, h) \<in> set (brave_links doc2) \<and> title r2 \<noteq> [] \<and> h \<noteq> []
           \<and> isValidSearchUrl h \<and> url r2 = cleanBraveUrl h)"
    using parseBraveResults_link[of doc2 n2 ts2] by blast
  have c3: "r3 \<in> set (parseBingResults doc3 n3 ts3) \<longrightarrow>
      (\<exists>h. (title r3, h) \<in> set (bing_links doc3) \<and> title r3 \<noteq> [] \<and> h \<noteq> []
           \<and> isValidSearchUrl h \<and> url r3 = cleanBingUrl h)"
    using parseBingResults_link[of doc3 n3 ts3] by blast
  have c4: "r4 \<in> set (parseDuckDuckGoResults doc4 n4 ts4) \<longrightarrow>
      (\<exists>h. (title r4, h) \<in> set (duckduckgo_links doc4) \<and> title r4 \<noteq> [] \<and> h \<noteq> []
           \<and> url r4 = cleanDuckDuckGoUrl h)"
    using parseDuckDuckGoResults_link[of doc4 n4 ts4] by blast
  have c5: "web_href h5 \<longrightarrow>
        scheme_qualified (cleanGoogleUrl h5) \<and> scheme_qualified (cleanBraveUrl h5)
        \<and> scheme_qualified (cleanBingUrl h5)"
    using cleanGoogleUrl_scheme[of h5] cleanBraveUrl_scheme[of h5] cleanBingUrl_scheme[of h5]
    by blast
  have c6: "web_href h6 \<and> \<not> startsWith h6 ''//duckduckgo.com/l/'' \<longrightarrow>
        scheme_qualified (cleanDuckDuckGoUrl h6)"
    using cleanDuckDuckGoUrl_scheme[of h6] by blast
  have c7: "CHR ''&'' \<notin> set v7 \<and> (rest7 = [] \<or> startsWith rest7 ''&'') \<and> form_decode v7 \<noteq> [] \<longrightarrow>
        cleanGoogleUrl (''/url?q='' @ v7 @ rest7) = form_decode v7"
    using cleanGoogleUrl_redirect[of v7 rest7] by blast
  have c8: "(str_includes h8 ''bing.com/ck/a?'' \<or> str_includes h8 ''bing.com/ck/a&'')
        \<and> bing_redirect_target h8 = Some t8 \<longrightarrow>
        cleanBingUrl h8 = t8 \<and> scheme_qualified t8"
    using cleanBingUrl_redirect[of h8 t8] bing_redirect_target_scheme[of h8 t8] by blast
  have c9: "CHR ''&'' \<notin> set v9 \<and> (rest9 = [] \<or> startsWith rest9 ''&'') \<and> form_decode v9 \<noteq> []
        \<and> decodeURIComponent (form_decode v9) = Some t9 \<longrightarrow>
        cleanDuckDuckGoUrl (''//duckduckgo.com/l/?uddg='' @ v9 @ rest9) = t9"
    using cleanDuckDuckGoUrl_redirect[of v9 rest9] by simp
  have c10: "CHR ''&'' \<notin> set v10 \<and> (rest10 = [] \<or> startsWith rest10 ''&'') \<and> form_decode v10 \<noteq> []
        \<and> decodeURIComponent (form_decode v10) = None \<longrightarrow>
        cleanDuckDuckGoUrl (''//duckduckgo.com/l/?uddg='' @ v10 @ rest10)
          = ''https://duckduckgo.com/l/?uddg='' @ v10 @ rest10"
    using cleanDuckDuckGoUrl_redirect[of v10 rest10] by simp
  from c1 c2 c3 c4 c5 c6 c7 c8 c9 c10 show ?thesis by (intro conjI)
qed

theorem parsed_url_is_normalized_href_witness:
  "google_links google_redirect_page
      = [(''Isabelle'', ''/url?q=https://isabelle.in.tum.de/&sa=U&ved=2ah'')]
   \<and> map url (parseSearchResults google_redirect_page 5 ''t'') = [''https://isabelle.in.tum.de/'']
   \<and> (\<exists>h. (title (hd (parseSearchResults google_redirect_page 5 ''t'')), h)
              \<in> set (google_links google_redirect_page)
          \<and> title (hd (parseSearchResults google_redirect_page 5 ''t'')) \<noteq> [] \<and> h \<noteq> []
          \<and> isValidSearchUrl h
          \<and> url (hd (parseSearchResults google_redirect_page 5 ''t'')) = cleanGoogleUrl h)
   \<and> brave_links brave_page = [(''Example'', ''//example.com/a'')]
   \<and> map url (parseBraveResults brave_page 5 ''t'') = [''https://example.com/a'']
   \<and> (\<exists>h. (title (hd (parseBraveResults brave_page 5 ''t'')), h) \<in> set (brave_links brave_page)
          \<and> title (hd (parseBraveResults brave_page 5 ''t'')) \<noteq> [] \<and> h \<noteq> []
          \<and> isValidSearchUrl h
          \<and> url (hd (parseBraveResults brave_page 5 ''t'')) = cleanBraveUrl h)
   \<and> bing_links bing_page
      = [(''Example'', ''https://www.bing.com/ck/a?!&&p=abc&u=a1aHR0cHM6Ly9lLmNvbQ&ntb=1''),
         (''Isabelle'', ''https://isabelle.in.tum.de/'')]
   \<and> map url (parseBingResults bing_page 5 ''t'') = [''https://e.com'', ''https://isabelle.in.tum.de/'']
   \<and> (\<exists>h. (title (hd (parseBingResults bing_page 5 ''t'')), h) \<in> set (bing_links bing_page)
          \<and> title (hd (parseBingResults bing_page 5 ''t'')) \<noteq> [] \<and> h \<noteq> []
          \<and> isValidSearchUrl h
          \<and> url (hd (parseBingResults bing_page 5 ''t'')) = cleanBingUrl h)
   \<and> duckduckgo_links duckduckgo_page
      = [(''Example'', ''//duckduckgo.com/l/?uddg=https%3A%2F%2Fexample.com%2Fa&rut=abc''),
         (''Example Org'', ''https://example.org/'')]
   \<and> map url (parseDuckDuckGoResults duckduckgo_page 5 ''t'')
       = [''https://example.com/a'', ''https://example.org/'']
   \<and> (\<exists>h. (title (hd (parseDuckDuckGoResults duckduckgo_page 5 ''t'')), h)
              \<in> set (duckduckgo_links duckduckgo_page)
          \<and> title (hd (parseDuckDuckGoResults duckduckgo_page 5 ''t'')) \<noteq> [] \<and> h \<noteq> []
          \<and> url (hd (parseDuckDuckGoResults duckduckgo_page 5 ''t'')) = cleanDuckDuckGoUrl h)
   \<and> web_href ''//example.com/a''
   \<and> scheme_qualified (cleanGoogleUrl ''//example.com/a'')
   \<and> scheme_qualified (cleanBraveUrl ''//example.com/a'')
   \<and> scheme_qualified (cleanBingUrl ''//example.com/a'')
   \<and> web_href ''https://example.org/''
   \<and> scheme_qualified (cleanDuckDuckGoUrl ''https://example.org/'')
   \<and> form_decode ''https://isabelle.in.tum.de/'' = ''https://isabelle.in.tum.de/''
   \<and> cleanGoogleUrl (''/url?q='' @ ''https://isabelle.in.tum.de/'' @ ''&sa=U&ved=2ah'')
       = form_decode ''https://isabelle.in.tum.de/''
   \<and> str_includes ''https://www.bing.com/ck/a?!&&p=abc&u=a1aHR0cHM6Ly9lLmNvbQ&ntb=1'' ''bing.com/ck/a?''
   \<and> bing_redirect_target ''https://www.bing.com/ck/a?!&&p=abc&u=a1aHR0cHM6Ly9lLmNvbQ&ntb=1''
       = Some ''https://e.com''
   \<and> cleanBingUrl ''https://www.bing.com/ck/a?!&&p=abc&u=a1aHR0cHM6Ly9lLmNvbQ&ntb=1'' = ''https://e.com''
   \<and> scheme_qualified ''https://e.com''
   \<and> form_decode ''https%3A%2F%2Fexample.com%2Fa'' = ''https://example.com/a''
   \<and> decodeURIComponent ''https://example.com/a'' = Some ''https://example.com/a''
   \<and> cleanDuckDuckGoUrl (''//duckduckgo.com/l/?uddg='' @ ''https%3A%2F%2Fexample.com%2Fa'' @ ''&rut=abc'')
       = ''https://example.com/a''
   \<and> form_decode ''https%3A%2F%2Fexample.com%2F100%25'' = ''https://example.com/100%''
   \<and> decodeURIComponent ''https://example.com/100%'' = None
   \<and> cleanDuckDuckGoUrl (''//duckduckgo.com/l/?uddg='' @ ''https%3A%2F%2Fexample.com%2F100%25'' @ [])
       = ''https://duckduckgo.com/l/?uddg='' @ ''https%3A%2F%2Fexample.com%2F100%25'' @ []"
proof -
  let ?g = "parseSearchResults google_redirect_page 5 ''t''"
  let ?v = "parseBraveResults brave_page 5 ''t''"
  let ?b = "parseBingResults bing_page 5 ''t''"
  let ?d = "parseDuckDuckGoResults duckduckgo_page 5 ''t''"
  let ?bh = "''https://www.bing.com/ck/a?!&&p=abc&u=a1aHR0cHM6Ly9lLmNvbQ&ntb=1''"
  note T = parsed_url_is_normalized_href
         [of "hd ?g" google_redirect_page 5 "''t''" "hd ?v" brave_page 5 "''t''"
             "hd ?b" bing_page 5 "''t''" "hd ?d" duckduckgo_page 5 "''t''"
             "''//example.com/a''" "''https://example.org/''"
             "''https://isabelle.in.tum.de/''" "''&sa=U&ved=2ah''"
             ?bh "''https://e.com''"
             "''https%3A%2F%2Fexample.com%2Fa''" "''&rut=abc''" "''https://example.com/a''"
             "''https%3A%2F%2Fexample.com%2F100%25''" "[]"]
  have lg: "google_links google_redirect_page
      = [(''Isabelle'', ''/url?q=https://isabelle.in.tum.de/&sa=U&ved=2ah'')]" by code_simp
  have lv: "brave_links brave_page = [(''Example'', ''//example.com/a'')]" by code_simp
  have lb: "bing_links bing_page = [(''Example'', ?bh), (''Isabelle'', ''https://isabelle.in.tum.de/'')]"
    by code_simp
  have ld: "duckduckgo_links duckduckgo_page
      = [(''Example'', ''//duckduckgo.com/l/?uddg=https%3A%2F%2Fexample.com%2Fa&rut=abc''),
         (''Example Org'', ''https://example.org/'')]" by code_simp
  have g: "map url ?g = [''https://isabelle.in.tum.de/'']" by code_simp
  have v: "map url ?v = [''https://example.com/a'']" by code_simp
  have b: "map url ?b = [''https://e.com'', ''https://isabelle.in.tum.de/'']" by code_simp
  have d: "map url ?d = [''https://example.com/a'', ''https://example.org/'']" by code_simp
  from g have mg: "hd ?g \<in> set ?g" by (cases ?g) auto
  from v have mv: "hd ?v \<in> set ?v" by (cases ?v) auto
  from b have mb: "hd ?b \<in> set ?b" by (cases ?b) auto
  from d have md: "hd ?d \<in> set ?d" by (cases ?d) auto
  have w5: "web_href ''//example.com/a''" by code_simp
  have w6: "web_href ''https://example.org/''"
    "\<not> startsWith ''https://example.org/'' ''//duckduckgo.com/l/''" by code_simp+
  have w7: "CHR ''&'' \<notin> set ''https://isabelle.in.tum.de/''"
    "form_decode ''https://isabelle.in.tum.de/'' = ''https://isabelle.in.tum.de/''"
    "startsWith ''&sa=U&ved=2ah'' ''&''" by code_simp+
  have w8: "str_includes ?bh ''bing.com/ck/a?''" "bing_redirect_target ?bh = Some ''https://e.com''"
    by code_simp+
  have w9: "CHR ''&'' \<notin> set ''https%3A%2F%2Fexample.com%2Fa''"
    "form_decode ''https%3A%2F%2Fexample.com%2Fa'' = ''https://example.com/a''"
    "decodeURIComponent ''https://example.com/a'' = Some ''https://example.com/a''"
    "startsWith ''&rut=abc'' ''&''" by code_simp+
  have w10: "CHR ''&'' \<notin> set ''https%3A%2F%2Fexample.com%2F100%25''"
    "form_decode ''https%3A%2F%2Fexample.com%2F100%25'' = ''https://example.com/100%''"
    "decodeURIComponent ''https://example.com/100%'' = None" by code_simp+
  have e1: "\<exists>h. (title (hd ?g), h) \<in> set (google_links google_redirect_page)
          \<and> title (hd ?g) \<noteq> [] \<and> h \<noteq> [] \<and> isValidSearchUrl h \<and> url (hd ?g) = cleanGoogleUrl h"
    using T mg by blast
  have e2: "\<exists>h. (title (hd ?v), h) \<in> set (brave_links brave_page)
          \<and> title (hd ?v) \<noteq> [] \<and> h \<noteq> [] \<and> isValidSearchUrl h \<and> url (hd ?v) = cleanBraveUrl h"
    using T mv by blast
  have e3: "\<exists>h. (title (hd ?b), h) \<in> set (bing_links bing_page)
          \<and> title (hd ?b) \<noteq> [] \<and> h \<noteq> [] \<and> isValidSearchUrl h \<and> url (hd ?b) = cleanBingUrl h"
    using T mb by blast
  have e4: "\<exists>h. (title (hd ?d), h) \<in> set (duckduckgo_links duckduckgo_page)
          \<and> title (hd ?d) \<noteq> [] \<and> h \<noteq> [] \<and> url (hd ?d) = cleanDuckDuckGoUrl h"
    using T md by blast
  have e5: "scheme_qualified (cleanGoogleUrl ''//example.com/a'')
      \<and> scheme_qualified (cleanBraveUrl ''//example.com/a'')
      \<and> scheme_qualified (cleanBingUrl ''//example.com/a'')"
    using T w5 by blast
  have e6: "scheme_qualified (cleanDuckDuckGoUrl ''https://example.org/'')"
    using T w6 by blast
  have e7: "cleanGoogleUrl (''/url?q='' @ ''https://isabelle.in.tum.de/'' @ ''&sa=U&ved=2ah'')
       = form_decode ''https://isabelle.in.tum.de/''"
    using T w7 by (simp only: list.distinct simp_thms)
  have e8: "cleanBingUrl ?bh = ''https://e.com'' \<and> scheme_qualified ''https://e.com''"
    using T w8 by blast
  have e9: "cleanDuckDuckGoUrl (''//duckduckgo.com/l/?uddg='' @ ''https%3A%2F%2Fexample.com%2Fa'' @ ''&rut=abc'')
       = ''https://example.com/a''"
    using T w9 by (simp only: list.distinct simp_thms)
  have e10: "cleanDuckDuckGoUrl (''//duckduckgo.com/l/?uddg='' @ ''https%3A%2F%2Fexample.com%2F100%25'' @ [])
       = ''https://duckduckgo.com/l/?uddg='' @ ''https%3A%2F%2Fexample.com%2F100%25'' @ []"
    using T w10 by (simp only: list.distinct simp_thms)
  from lg lv lb ld g v b d e1 e2 e3 e4 w5 e5 w6(1) e6 w7(2) e7 w8 e8 w9(2,3) e9 w10(2,3) e10
  show ?thesis by (intro conjI) (simp_all only: simp_thms)
qed
section \<open>Properties of the quality score\<close>

lemma count_matches_filter: "count_matches test items = length (filter test items)"
proof -
  have "fold (\<lambda>item n. if test item then n + 1 else n) items k = k + length (filter test items)" for k
    by (induction items arbitrary: k) auto
  then show ?thesis by (simp add: count_matches_def)
qed

lemma penalty_fold:
  "fold (\<lambda>pattern p. if test pattern then p + 2 / 10 else p) ps (k :: real)
     = k + 2 / 10 * real (length (filter test ps))"
  by (induction ps arbitrary: k) (auto simp: algebra_simps)

lemma finalScore_spec: "finalScore ws result = resultScore_spec ws result"
  by (simp add: finalScore_def resultScore_spec_def hitRatio_def matchedPhrases_def
      matchedPatterns_def count_matches_filter penalty_fold Let_def algebra_simps)

lemma total_fold:
  "fold (\<lambda>result (totalScore, scoredResults). (totalScore + f result, Suc scoredResults)) results (t, n)
     = (t + sum_list (map f results), n + length results)"
  by (induction results arbitrary: t n) (auto simp: algebra_simps)



lemma assessResultQuality_eq: "assessResultQuality rs q = quality_spec rs q"
  by (simp add: assessResultQuality_def quality_spec_def Let_def total_fold finalScore_spec)


subsection \<open>Scores of the example results\<close>

lemma words_paris: "queryWords ''Paris capital France'' = [''paris'', ''capital'', ''france'']"
  by code_simp


lemma wikipedia_hits:
  "length (filter (str_includes (combinedText paris_wikipedia)) [''paris'', ''capital'', ''france'']) = 3"
  by code_simp

lemma wikipedia_phrases: "matchedPhrases [''paris'', ''capital'', ''france''] paris_wikipedia = 0"
  by code_simp

lemma wikipedia_patterns: "matchedPatterns paris_wikipedia = 0"
  by code_simp

lemma hotels_hits:
  "length (filter (str_includes (combinedText paris_hotels)) [''paris'', ''capital'', ''france'']) = 1"
  by code_simp

lemma hotels_phrases: "matchedPhrases [''paris'', ''capital'', ''france''] paris_hotels = 0"
  by code_simp

lemma hotels_patterns: "matchedPatterns paris_hotels = 1"
  by code_simp

lemma wikipedia_score: "resultScore_spec [''paris'', ''capital'', ''france''] paris_wikipedia = 1"
  unfolding resultScore_spec_def hitRatio_def wikipedia_hits wikipedia_phrases wikipedia_patterns
  by simp

lemma hotels_score: "resultScore_spec [''paris'', ''capital'', ''france''] paris_hotels = 2 / 15"
  unfolding resultScore_spec_def hitRatio_def hotels_hits hotels_phrases hotels_patterns
  by simp

lemma quality_wikipedia: "assessResultQuality [paris_wikipedia] ''Paris capital France'' = 1"
  by (simp add: assessResultQuality_eq quality_spec_def words_paris wikipedia_score)

lemma quality_hotels: "assessResultQuality [paris_hotels] ''Paris capital France'' = 2 / 15"
  by (simp add: assessResultQuality_eq quality_spec_def words_paris hotels_score)

lemma quality_both:
  "assessResultQuality [paris_wikipedia, paris_hotels] ''Paris capital France'' = 17 / 30"
  by (simp add: assessResultQuality_eq quality_spec_def words_paris wikipedia_score hotels_score)



section \<open>Properties of the browser pool\<close>





















section \<open>Properties of the search orchestration\<close>

lemma attempt_threw:
  assumes "call q k (min (t / 3) 4000) = Threw e"
  shows "attempt cfg q k t i n (name, call) bst se =
     (None, bst, handleBrowserError e name
                   (log_to (ApproachFailed name e) (log_to (Attempting name (i + 1) n) se)))"
  using assms by (simp add: attempt_def Let_def)

lemma attempt_empty:
  assumes "call q k (min (t / 3) 4000) = Returned []"
  shows "attempt cfg q k t i n (name, call) bst se = (None, bst, log_to (Attempting name (i + 1) n) se)"
  using assms by (simp add: attempt_def Let_def)

lemma attempt_returned:
  assumes "call q k (min (t / 3) 4000) = Returned results" and "results \<noteq> []"
  shows "attempt cfg q k t i n (name, call) bst se =
     (let s = quality_score cfg results q;
          bst1 = track_best bst results name s;
          se3 = log_to (QualityScore name s)
                  (log_to (FoundResults (length results) name) (log_to (Attempting name (i + 1) n) se))
      in if s \<ge> 8 / 10 \<and> \<not> forceMultiEngine cfg
         then (Some (results, name), bst1, log_to (ExcellentQuality name) se3)
         else if s \<ge> qualityThreshold cfg \<and> name \<noteq> ''Browser Bing'' \<and> \<not> forceMultiEngine cfg
         then (Some (results, name), bst1, log_to (GoodQuality name) se3)
         else if int i = int n - 1
         then (if bestQuality bst1 \<ge> qualityThreshold cfg \<or> \<not> enableQualityCheck cfg
               then (Some (bestResults bst1, bestEngine bst1), bst1,
                     log_to (UsingBest (bestEngine bst1) (bestQuality bst1)) se3)
               else if bestResults bst1 \<noteq> []
               then (Some (bestResults bst1, bestEngine bst1), bst1,
                     log_to (LowQualityBest (bestEngine bst1)) se3)
               else (None, bst1, se3))
         else (None, bst1, log_to (ContinuingAfter name s) se3))"
  using assms by (simp add: attempt_def Let_def quality_score_def track_best_def)

lemma handleBrowserError_pool:
  "browserPool (handleBrowserError e name se) =
     (if session_closed (errorMessage e) then closeAll (browserPool se) else browserPool se)"
  by (simp add: handleBrowserError_def Let_def log_to_def)

lemma handleBrowserError_console:
  "console (handleBrowserError e name se) =
     console se @ [BrowserError name 1 (errorMessage e)] @
       (if session_closed (errorMessage e)
        then [SessionClosureDetected, PoolClosing (length (browsers (browserPool se))), PoolRefreshed name]
        else [])"
  by (simp add: handleBrowserError_def Let_def log_to_def)

lemma handleBrowserError_limiter: "rateLimiter (handleBrowserError e name se) = rateLimiter se"
  by (simp add: handleBrowserError_def Let_def log_to_def)

text \<open>
  Claim C7. When the method of an approach throws, the loop body returns nothing and the loop
  goes on with the next approach, with the locals unchanged; the console has received the
  failure line and the browser-error line; and when the message of the error names a closed
  page, context, browser or session, \<open>closeAll\<close> has emptied the pool and closed every
  cached browser before the next attempt. No error of an engine fails the search: once the
  rate limiter admits the call, \<open>search\<close> returns an answer.
\<close>

theorem engine_failure_is_contained:
  assumes "call q k (min (t / 3) 4000) = Threw e"
  shows "try_approaches cfg q k t i n ((name, call) # rest) bst se =
           try_approaches cfg q k t (i + 1) n rest bst
             (handleBrowserError e name
                (log_to (ApproachFailed name e) (log_to (Attempting name (i + 1) n) se)))
    \<and> console (handleBrowserError e name
                (log_to (ApproachFailed name e) (log_to (Attempting name (i + 1) n) se)))
        = console se @ [Attempting name (i + 1) n, ApproachFailed name e,
                        BrowserError name 1 (errorMessage e)] @
            (if session_closed (errorMessage e)
             then [SessionClosureDetected, PoolClosing (length (browsers (browserPool se))),
                   PoolRefreshed name]
             else [])
    \<and> browserPool (handleBrowserError e name
                (log_to (ApproachFailed name e) (log_to (Attempting name (i + 1) n) se)))
        = (if session_closed (errorMessage e) then closeAll (browserPool se) else browserPool se)
    \<and> browsers (closeAll (browserPool se)) = []
    \<and> closeCalls (closeAll (browserPool se))
        = closeCalls (browserPool se) @ map snd (browsers (browserPool se))
    \<and> (snd (check_rate_limit (rateLimiter se0) now) = None \<longrightarrow>
         (\<exists>answer. snd (search cfg eng now options se0) = Inr answer))"
proof (intro conjI impI)
  show "try_approaches cfg q k t i n ((name, call) # rest) bst se =
           try_approaches cfg q k t (i + 1) n rest bst
             (handleBrowserError e name
                (log_to (ApproachFailed name e) (log_to (Attempting name (i + 1) n) se)))"
    using attempt_threw[of call q k t e cfg i n name bst se] assms by simp
next
  show "console (handleBrowserError e name
                (log_to (ApproachFailed name e) (log_to (Attempting name (i + 1) n) se)))
        = console se @ [Attempting name (i + 1) n, ApproachFailed name e,
                        BrowserError name 1 (errorMessage e)] @
            (if session_closed (errorMessage e)
             then [SessionClosureDetected, PoolClosing (length (browsers (browserPool se))),
                   PoolRefreshed name]
             else [])"
    by (simp add: handleBrowserError_console log_to_def)
next
  show "browserPool (handleBrowserError e name
                (log_to (ApproachFailed name e) (log_to (Attempting name (i + 1) n) se)))
        = (if session_closed (errorMessage e) then closeAll (browserPool se) else browserPool se)"
    by (simp add: handleBrowserError_pool log_to_def)
next
  show "browsers (closeAll (browserPool se)) = []" by (simp add: closeAll_def)
next
  show "closeCalls (closeAll (browserPool se))
        = closeCalls (browserPool se) @ map snd (browsers (browserPool se))"
    by (simp add: closeAll_def)
next
  assume "snd (check_rate_limit (rateLimiter se0) now) = None"
  then show "\<exists>answer. snd (search cfg eng now options se0) = Inr answer"
    by (cases "check_rate_limit (rateLimiter se0) now")
       (auto simp: search_def execute_def Let_def log_to_def split: prod.splits)
qed

subsection \<open>The example searches, evaluated\<close>

lemma sanitize_paris: "sanitizeQuery ''Paris capital France'' = ''Paris capital France''"
  by code_simp

lemma sanitize_physics: "sanitizeQuery ''quantum physics'' = ''quantum physics''"
  by code_simp

lemma closed_message_detected: "session_closed closed_message"
  by code_simp

lemma timeout_not_closed: "\<not> session_closed ''page.goto: Timeout 3333ms exceeded''"
  by code_simp

lemma duckduckgo_not_closed: "\<not> session_closed ''DuckDuckGo search failed''"
  by code_simp

lemma words_physics: "queryWords ''quantum physics'' = [''quantum'', ''physics'']"
  by code_simp

lemma hotels_physics_hits:
  "length (filter (str_includes (combinedText paris_hotels)) [''quantum'', ''physics'']) = 0"
  by code_simp

lemma hotels_physics_phrases: "matchedPhrases [''quantum'', ''physics''] paris_hotels = 0"
  by code_simp

lemma hotels_physics_score: "resultScore_spec [''quantum'', ''physics''] paris_hotels = 0"
  unfolding resultScore_spec_def hitRatio_def hotels_physics_hits hotels_physics_phrases hotels_patterns
  by simp

lemma quality_hotels_physics: "assessResultQuality [paris_hotels] ''quantum physics'' = 0"
  by (simp add: assessResultQuality_eq quality_spec_def words_physics hotels_physics_score)

lemma bing_only_search:
  "snd (search default_config bing_only 0 paris_options (new_search_engine 0)) = Inr ([], ''None'')"
  by (simp add: search_def paris_options_def sanitize_paris execute_def check_rate_limit_def
      reset_window_def new_search_engine_def new_rate_limiter_def dispatch_def resetIntervalMs_def
      Let_def log_to_def search_engines_def approaches_def bing_only_def attempt_def quality_both
      default_config_def handleBrowserError_def errorMessage_def timeout_not_closed
      duckduckgo_not_closed)

lemma all_hotels_search:
  "snd (search default_config all_hotels 0 physics_options (new_search_engine 0)) = Inr ([], ''None'')"
  by (simp add: search_def physics_options_def sanitize_physics execute_def check_rate_limit_def
      reset_window_def new_search_engine_def new_rate_limiter_def dispatch_def resetIntervalMs_def
      Let_def log_to_def search_engines_def approaches_def all_hotels_def answering_def attempt_def
      quality_hotels_physics default_config_def)

text \<open>
  Claim C1. The decision on the last engine sits inside the branch for a non-empty result set
  of that engine, so it is skipped when the last engine fails or finds nothing. Bing answers
  with two results that score 17/30, which is kept as the best set; Brave and DuckDuckGo
  throw; the loop ends and \<open>search\<close> returns the empty set tagged \<open>None\<close>. The same answer
  comes back when every engine returns a non-empty set that scores 0, since a set is kept as
  the best only when its score exceeds the initial 0.
\<close>

theorem search_drops_best_results:
  "snd (search default_config bing_only 0 paris_options (new_search_engine 0)) = Inr ([], ''None'')
   \<and> tryBrowserBingSearch bing_only ''Paris capital France'' 5 (min (10000 / 3) 4000)
        = Returned [paris_wikipedia, paris_hotels]
   \<and> assessResultQuality [paris_wikipedia, paris_hotels] ''Paris capital France'' = 17 / 30
   \<and> snd (search default_config all_hotels 0 physics_options (new_search_engine 0)) = Inr ([], ''None'')
   \<and> tryDuckDuckGoSearch all_hotels ''quantum physics'' 5 (min (10000 / 3) 4000) = Returned [paris_hotels]"
  using bing_only_search all_hotels_search quality_both
  by (simp add: bing_only_def all_hotels_def answering_def)

text \<open>
  Claim C6, as stated, fails: with the multi-engine override set, a set from the second engine
  whose score (17/30) is at least the acceptance threshold (3/10) and below 0.8 is not
  returned; the loop body ends without a \<open>return\<close>.
\<close>

theorem forced_search_keeps_acceptable_results:
  "fst (attempt forced_config ''Paris capital France'' 5 10000 1 3
          (''Browser Brave'', answering [paris_wikipedia, paris_hotels]) no_best (new_search_engine 0))
     = None
   \<and> quality_score forced_config [paris_wikipedia, paris_hotels] ''Paris capital France'' = 17 / 30
   \<and> qualityThreshold forced_config = 3 / 10
   \<and> ''Browser Brave'' \<noteq> ''Browser Bing''"
  by (simp add: attempt_def answering_def forced_config_def default_config_def quality_score_def
      quality_both Let_def log_to_def no_best_def)

text \<open>
  Claim C6, amended. For an attempt that parses at least one result: a score of at least 0.8
  returns that engine's results at once unless the override is set; else a score of at least
  the acceptance threshold returns them at once when the engine is not \<open>Browser Bing\<close> and the
  override is not set; otherwise the set becomes the best so far exactly when its score
  exceeds the previous best, and the loop goes on with the next engine, or, on the last
  engine, returns the best so far when its score meets the threshold, scoring is disabled, or
  it is not empty.
\<close>

theorem attempt_decision:
  assumes "call q k (min (t / 3) 4000) = Returned results" and "results \<noteq> []"
  shows
   "(quality_score cfg results q \<ge> 8 / 10 \<and> \<not> forceMultiEngine cfg \<longrightarrow>
       fst (attempt cfg q k t i n (name, call) bst se) = Some (results, name))
    \<and> (quality_score cfg results q < 8 / 10 \<and> quality_score cfg results q \<ge> qualityThreshold cfg
         \<and> name \<noteq> ''Browser Bing'' \<and> \<not> forceMultiEngine cfg \<longrightarrow>
       fst (attempt cfg q k t i n (name, call) bst se) = Some (results, name))
    \<and> (\<not> (quality_score cfg results q \<ge> 8 / 10 \<and> \<not> forceMultiEngine cfg)
         \<and> \<not> (quality_score cfg results q \<ge> qualityThreshold cfg \<and> name \<noteq> ''Browser Bing''
               \<and> \<not> forceMultiEngine cfg) \<longrightarrow>
       fst (snd (attempt cfg q k t i n (name, call) bst se))
         = (if quality_score cfg results q > bestQuality bst
            then \<lparr>bestResults = results, bestEngine = name,
                  bestQuality = quality_score cfg results q\<rparr>
            else bst)
       \<and> (int i \<noteq> int n - 1 \<longrightarrow>
            fst (attempt cfg q k t i n (name, call) bst se) = None
            \<and> try_approaches cfg q k t i n ((name, call) # rest) bst se
                = try_approaches cfg q k t (i + 1) n rest
                    (fst (snd (attempt cfg q k t i n (name, call) bst se)))
                    (snd (snd (attempt cfg q k t i n (name, call) bst se))))
       \<and> (int i = int n - 1 \<longrightarrow>
            fst (attempt cfg q k t i n (name, call) bst se)
              = (let b = fst (snd (attempt cfg q k t i n (name, call) bst se)) in
                 if bestQuality b \<ge> qualityThreshold cfg \<or> \<not> enableQualityCheck cfg
                    \<or> bestResults b \<noteq> []
                 then Some (bestResults b, bestEngine b) else None)))"
proof -
  let ?s = "quality_score cfg results q"
  let ?A = "attempt cfg q k t i n (name, call) bst se"
  let ?excellent = "?s \<ge> 8 / 10 \<and> \<not> forceMultiEngine cfg"
  let ?good = "?s \<ge> qualityThreshold cfg \<and> name \<noteq> ''Browser Bing'' \<and> \<not> forceMultiEngine cfg"
  note a = attempt_returned[of call q k t results cfg i n name bst se, OF assms]
  have loop: "try_approaches cfg q k t i n ((name, call) # rest) bst se =
      (case fst ?A of
         Some answer \<Rightarrow> ?A
       | None \<Rightarrow> try_approaches cfg q k t (i + 1) n rest (fst (snd ?A)) (snd (snd ?A)))"
    by (cases ?A) (auto split: option.splits)
  have c1: "?excellent \<longrightarrow> fst ?A = Some (results, name)"
    unfolding a by (simp add: Let_def)
  have c2: "?s < 8 / 10 \<and> ?good \<longrightarrow> fst ?A = Some (results, name)"
    unfolding a by (simp add: Let_def)
  have c3: "\<not> ?excellent \<and> \<not> ?good \<longrightarrow>
      fst (snd ?A) = (if ?s > bestQuality bst
            then \<lparr>bestResults = results, bestEngine = name, bestQuality = ?s\<rparr> else bst)"
    unfolding a by (simp add: Let_def track_best_def)
  have c4: "\<not> ?excellent \<and> \<not> ?good \<and> int i \<noteq> int n - 1 \<longrightarrow> fst ?A = None"
    unfolding a by (simp add: Let_def)
  have c5: "\<not> ?excellent \<and> \<not> ?good \<and> int i = int n - 1 \<longrightarrow>
      fst ?A = (let b = fst (snd ?A) in
                 if bestQuality b \<ge> qualityThreshold cfg \<or> \<not> enableQualityCheck cfg
                    \<or> bestResults b \<noteq> []
                 then Some (bestResults b, bestEngine b) else None)"
    unfolding a by (simp add: Let_def)
  have c6: "fst ?A = None \<longrightarrow>
      try_approaches cfg q k t i n ((name, call) # rest) bst se
        = try_approaches cfg q k t (i + 1) n rest (fst (snd ?A)) (snd (snd ?A))"
    unfolding loop by simp
  from c1 c2 c3 c4 c5 c6 show ?thesis
    apply (intro conjI impI)
    apply (simp_all only: simp_thms)
    done
qed

theorem attempt_decision_witness:
  "answering [paris_wikipedia] ''Paris capital France'' 5 (min (10000 / 3) 4000) = Returned [paris_wikipedia]
   \<and> [paris_wikipedia] \<noteq> []
   \<and> quality_score default_config [paris_wikipedia] ''Paris capital France'' = 1
   \<and> fst (attempt default_config ''Paris capital France'' 5 10000 0 3
             (''Browser Bing'', answering [paris_wikipedia]) no_best (new_search_engine 0))
       = Some ([paris_wikipedia], ''Browser Bing'')
   \<and> quality_score default_config [paris_wikipedia, paris_hotels] ''Paris capital France'' = 17 / 30
   \<and> fst (attempt default_config ''Paris capital France'' 5 10000 1 3
             (''Browser Brave'', answering [paris_wikipedia, paris_hotels]) no_best (new_search_engine 0))
       = Some ([paris_wikipedia, paris_hotels], ''Browser Brave'')
   \<and> fst (attempt default_config ''Paris capital France'' 5 10000 0 3
             (''Browser Bing'', answering [paris_wikipedia, paris_hotels]) no_best (new_search_engine 0))
       = None
   \<and> fst (snd (attempt default_config ''Paris capital France'' 5 10000 0 3
             (''Browser Bing'', answering [paris_wikipedia, paris_hotels]) no_best (new_search_engine 0)))
       = bing_best
   \<and> quality_score default_config [paris_hotels] ''Paris capital France'' = 2 / 15
   \<and> fst (attempt default_config ''Paris capital France'' 5 10000 2 3
             (''Axios DuckDuckGo'', answering [paris_hotels]) bing_best (new_search_engine 0))
       = Some ([paris_wikipedia, paris_hotels], ''Browser Bing'')
   \<and> fst (snd (attempt default_config ''Paris capital France'' 5 10000 2 3
             (''Axios DuckDuckGo'', answering [paris_hotels]) bing_best (new_search_engine 0)))
       = bing_best"
proof -
  let ?q = "''Paris capital France''"
  let ?se = "new_search_engine 0"
  have s1: "quality_score default_config [paris_wikipedia] ?q = 1"
    by (simp add: quality_score_def default_config_def quality_wikipedia)
  have s2: "quality_score default_config [paris_wikipedia, paris_hotels] ?q = 17 / 30"
    by (simp add: quality_score_def default_config_def quality_both)
  have s3: "quality_score default_config [paris_hotels] ?q = 2 / 15"
    by (simp add: quality_score_def default_config_def quality_hotels)
  have cfg: "qualityThreshold default_config = 3 / 10" "\<not> forceMultiEngine default_config"
    "enableQualityCheck default_config"
    by (simp_all add: default_config_def)
  have r: "answering rs ?q 5 (min (10000 / 3) 4000) = Returned rs" for rs
    by (simp add: answering_def)
  have i1: "fst (attempt default_config ?q 5 10000 0 3 (''Browser Bing'', answering [paris_wikipedia]) no_best ?se)
       = Some ([paris_wikipedia], ''Browser Bing'')"
    using attempt_decision [where call = "answering [paris_wikipedia]" and q = ?q and k = 5
        and t = 10000 and results = "[paris_wikipedia]" and cfg = default_config and i = 0 and n = 3
        and name = "''Browser Bing''" and bst = no_best and se = ?se and rest = "[]", OF r]
      s1 cfg by simp
  have i2: "fst (attempt default_config ?q 5 10000 1 3
             (''Browser Brave'', answering [paris_wikipedia, paris_hotels]) no_best ?se)
       = Some ([paris_wikipedia, paris_hotels], ''Browser Brave'')"
    using attempt_decision [where call = "answering [paris_wikipedia, paris_hotels]" and q = ?q
        and k = 5 and t = 10000 and results = "[paris_wikipedia, paris_hotels]"
        and cfg = default_config and i = 1 and n = 3 and name = "''Browser Brave''"
        and bst = no_best and se = ?se and rest = "[]", OF r]
      s2 cfg by simp
  have i3: "fst (attempt default_config ?q 5 10000 0 3
             (''Browser Bing'', answering [paris_wikipedia, paris_hotels]) no_best ?se) = None
      \<and> fst (snd (attempt default_config ?q 5 10000 0 3
             (''Browser Bing'', answering [paris_wikipedia, paris_hotels]) no_best ?se)) = bing_best"
    using attempt_decision [where call = "answering [paris_wikipedia, paris_hotels]" and q = ?q
        and k = 5 and t = 10000 and results = "[paris_wikipedia, paris_hotels]"
        and cfg = default_config and i = 0 and n = 3 and name = "''Browser Bing''"
        and bst = no_best and se = ?se and rest = "[]", OF r]
      s2 cfg by (simp add: no_best_def bing_best_def)
  have i4: "fst (attempt default_config ?q 5 10000 2 3
             (''Axios DuckDuckGo'', answering [paris_hotels]) bing_best ?se)
         = Some ([paris_wikipedia, paris_hotels], ''Browser Bing'')
      \<and> fst (snd (attempt default_config ?q 5 10000 2 3
             (''Axios DuckDuckGo'', answering [paris_hotels]) bing_best ?se)) = bing_best"
    using attempt_decision [where call = "answering [paris_hotels]" and q = ?q
        and k = 5 and t = 10000 and results = "[paris_hotels]"
        and cfg = default_config and i = 2 and n = 3 and name = "''Axios DuckDuckGo''"
        and bst = bing_best and se = ?se and rest = "[]", OF r]
      s3 cfg by (simp add: bing_best_def Let_def)
  from r[of "[paris_wikipedia]"] s1 s2 s3 i1 i2 i3 i4 show ?thesis by simp
qed

theorem engine_failure_is_contained_witness:
  "failing closed_message ''Paris capital France'' 5 (min (10000 / 3) 4000)
     = Threw (ErrorObject closed_message)
   \<and> session_closed (errorMessage (ErrorObject closed_message))
   \<and> browsers (browserPool pooled_search_engine) = [(''chromium'', 1)]
   \<and> fst (try_approaches default_config ''Paris capital France'' 5 10000 0 2
            [(''Browser Bing'', failing closed_message),
             (''Browser Brave'', answering [paris_wikipedia])] no_best pooled_search_engine)
       = Some ([paris_wikipedia], ''Browser Brave'')
   \<and> browsers (browserPool (snd (snd (try_approaches default_config ''Paris capital France'' 5 10000 0 2
            [(''Browser Bing'', failing closed_message),
             (''Browser Brave'', answering [paris_wikipedia])] no_best pooled_search_engine)))) = []
   \<and> closeCalls (browserPool (snd (snd (try_approaches default_config ''Paris capital France'' 5 10000 0 2
            [(''Browser Bing'', failing closed_message),
             (''Browser Brave'', answering [paris_wikipedia])] no_best pooled_search_engine)))) = [1]
   \<and> snd (check_rate_limit (rateLimiter (new_search_engine 0)) 0) = None
   \<and> snd (search default_config bing_only 0 paris_options (new_search_engine 0)) = Inr ([], ''None'')"
proof -
  let ?q = "''Paris capital France''"
  let ?e = "ErrorObject closed_message"
  let ?se1 = "handleBrowserError ?e ''Browser Bing''
                (log_to (ApproachFailed ''Browser Bing'' ?e)
                   (log_to (Attempting ''Browser Bing'' (0 + 1) 2) pooled_search_engine))"
  have f: "failing closed_message ?q 5 (min (10000 / 3) 4000) = Threw ?e"
    by (simp add: failing_def)
  have c: "session_closed (errorMessage ?e)"
    by (simp add: errorMessage_def closed_message_detected)
  have p: "browsers (browserPool pooled_search_engine) = [(''chromium'', 1)]"
    "closeCalls (browserPool pooled_search_engine) = []"
    by code_simp+
  have l: "snd (check_rate_limit (rateLimiter (new_search_engine 0)) 0) = None"
    by (simp add: check_rate_limit_def reset_window_def new_search_engine_def new_rate_limiter_def
        resetIntervalMs_def Let_def)
  note w = engine_failure_is_contained [where call = "failing closed_message" and q = ?q and k = 5
      and t = 10000 and e = ?e and cfg = default_config and i = 0 and n = 2
      and name = "''Browser Bing''" and rest = "[(''Browser Brave'', answering [paris_wikipedia])]"
      and bst = no_best and se = pooled_search_engine and ?se0.0 = "new_search_engine 0"
      and now = 0 and eng = bing_only and options = paris_options, OF f]
  from w c p have pool: "browsers (browserPool ?se1) = []" "closeCalls (browserPool ?se1) = [1]"
    by simp_all
  let ?rest = "try_approaches default_config ?q 5 10000 (0 + 1) 2
        [(''Browser Brave'', answering [paris_wikipedia])] no_best ?se1"
  have rest: "fst ?rest = Some ([paris_wikipedia], ''Browser Brave'')"
    "browserPool (snd (snd ?rest)) = browserPool ?se1"
    by (simp_all add: attempt_def answering_def default_config_def quality_wikipedia Let_def
        no_best_def log_to_def)
  from w have all: "try_approaches default_config ?q 5 10000 0 2
        [(''Browser Bing'', failing closed_message), (''Browser Brave'', answering [paris_wikipedia])]
        no_best pooled_search_engine = ?rest"
    by (simp del: try_approaches.simps)
  show ?thesis
    unfolding all using f c p l pool rest bing_only_search by (simp del: try_approaches.simps)
qed

end
